theory Spec2Isabelle
  imports Complex_Main "HOL-Library.Multiset"
begin

section \<open>Wire vocabulary (types.ts)\<close>

type_synonym UserId = string
type_synonym PlanetId = string
type_synonym callback = nat

record UserPresence =
  id' :: UserId
  name :: string
  color :: string
  joinedAt :: nat
  lastSeen :: nat
  selectedPlanetId :: "PlanetId option"
  isViewingPlanet :: "PlanetId option"

record CameraState =
  position :: "real \<times> real \<times> real"
  target :: "real \<times> real \<times> real"
  zoom :: real
  timestamp :: real

text \<open>
  Client to server messages. \<open>Join\<close> carries \<open>this.roomId\<close> and \<open>this.user\<close> as the
  client holds them, both of which are nullable fields of the class.
\<close>

datatype RealtimeClientMessage =
    Join "string option" "UserPresence option"
  | Leave string
  | Select string string
  | Unselect string string
  | Join_viewer string string
  | Leave_viewer string string
  | Camera string CameraState string
  | Heartbeat string nat

datatype RealtimeServerMessage =
    Presence "UserPresence list"
  | Conflict string string "string option"
  | Ack string "nat option"
  | Error "string option" "string option" string
  | Selection_state "(string \<times> string list) list"
  | Viewer_cameras string "(string \<times> CameraState) list"
  | Camera_update string CameraState string

datatype msg_type =
  T_presence | T_conflict | T_ack | T_error | T_selection_state | T_viewer_cameras | T_camera

fun type_of :: "RealtimeServerMessage \<Rightarrow> msg_type" where
  "type_of (Presence _) = T_presence"
| "type_of (Conflict _ _ _) = T_conflict"
| "type_of (Ack _ _) = T_ack"
| "type_of (Error _ _ _) = T_error"
| "type_of (Selection_state _) = T_selection_state"
| "type_of (Viewer_cameras _ _) = T_viewer_cameras"
| "type_of (Camera_update _ _ _) = T_camera"

fun tag :: "msg_type \<Rightarrow> string" where
  "tag T_presence = ''presence''"
| "tag T_conflict = ''conflict''"
| "tag T_ack = ''ack''"
| "tag T_error = ''error''"
| "tag T_selection_state = ''selection_state''"
| "tag T_viewer_cameras = ''viewer_cameras''"
| "tag T_camera = ''camera''"

definition type_of_tag :: "string \<Rightarrow> msg_type option" where
  "type_of_tag k =
     (if k = ''presence'' then Some T_presence
      else if k = ''conflict'' then Some T_conflict
      else if k = ''ack'' then Some T_ack
      else if k = ''error'' then Some T_error
      else if k = ''selection_state'' then Some T_selection_state
      else if k = ''viewer_cameras'' then Some T_viewer_cameras
      else if k = ''camera'' then Some T_camera
      else None)"

text \<open>
  What arrives on the transport is a string. \<open>JSON.parse\<close> is the platform's, so the
  model starts from its outcome: a \<open>SyntaxError\<close>, the value \<open>null\<close>, a message shaped as
  types.ts declares it, or any other value, of which only the property key that its
  \<open>type\<close> coerces to matters to the client (\<open>''undefined''\<close> when the value has none).
\<close>

datatype parsed = Null | Shaped RealtimeServerMessage | Unshaped string

datatype inbound = Unparseable | Parsed parsed

text \<open>The key \<open>msg.type\<close> as used in \<open>this.handlers[msg.type]\<close>. Reading it off \<open>null\<close>
  raises, which \<open>dispatch\<close> below decides before it asks for the key; the value given
  here for \<open>Null\<close> is no tag.\<close>

fun type_key :: "parsed \<Rightarrow> string" where
  "type_key (Shaped m) = tag (type_of m)"
| "type_key (Unshaped k) = k"
| "type_key Null = ''null''"

section \<open>The client and its environment (RealtimeClient.ts)\<close>

datatype ready_state = CONNECTING | OPEN | CLOSING | CLOSED

text \<open>Who awaits the promise returned by \<open>openSocket\<close>.\<close>

datatype opener = By_connect string | By_reconnect | By_timer

record socket =
  readyState :: ready_state
  sent :: "RealtimeClientMessage list"
  send_raises :: bool
  awaited_by :: opener

datatype lifecycle = Connected | Disconnected | Errored

datatype exn = TypeError | SyntaxError

text \<open>
  The fields of the class, followed by the part of the host environment the class acts
  on: the WebSocket objects it created (a socket's identity is its index), the timers it
  has pending, the Storage object and whether its \<open>setItem\<close> and its \<open>getItem\<close> raise
  (both do for the \<open>{}\<close> that stands in for the Storage where there is no \<open>window\<close>),
  whether the WebSocket constructor raises, which callbacks raise when invoked, and the
  trace of callback invocations and of \<open>setTimeout\<close> delays. A \<open>Set\<close> of callbacks is the list of its members in insertion
  order. Callbacks are opaque: they are invoked and may raise, and they do not call back
  into the client while a loop over their set is running.
\<close>

record client =
  ws :: "nat option"
  roomId :: "string option"
  user :: "UserPresence option"
  messageQueue :: "RealtimeClientMessage list"
  handlers :: "msg_type \<rightharpoonup> callback list"
  heartbeatTimer :: "nat option"
  reconnectTimer :: "nat option"
  reconnectAttempts :: nat
  storage :: "string \<rightharpoonup> string"
  on_connected :: "callback list"
  on_disconnected :: "callback list"
  on_error :: "callback list"
  sockets :: "socket list"
  timeouts :: "(nat \<times> nat) list"
  intervals :: "(nat \<times> nat) list"
  next_timer :: nat
  storage_raises :: bool
  getItem_raises :: bool
  ctor_raises :: bool
  handler_raises :: "callback \<Rightarrow> parsed \<Rightarrow> bool"
  listener_raises :: "callback \<Rightarrow> bool"
  delivered :: "(callback \<times> parsed) list"
  notified :: "(callback \<times> lifecycle) list"
  scheduled :: "nat list"

definition HEARTBEAT_INTERVAL_MS :: nat where "HEARTBEAT_INTERVAL_MS = 30000"
definition RECONNECT_BASE_DELAY_MS :: nat where "RECONNECT_BASE_DELAY_MS = 1000"
definition RECONNECT_MAX_DELAY_MS :: nat where "RECONNECT_MAX_DELAY_MS = 15000"

text \<open>\<open>new RealtimeClient({roomId, storage})\<close> in a fresh environment.\<close>

definition new_client :: "string option \<Rightarrow> (string \<rightharpoonup> string) \<Rightarrow> client" where
  "new_client room st =
     \<lparr> ws = None,
       roomId = (case room of None \<Rightarrow> None | Some r \<Rightarrow> if r = [] then None else Some r),
       user = None, messageQueue = [], handlers = Map.empty,
       heartbeatTimer = None, reconnectTimer = None, reconnectAttempts = 0,
       storage = st, on_connected = [], on_disconnected = [], on_error = [],
       sockets = [], timeouts = [], intervals = [], next_timer = 1,
       storage_raises = False, getItem_raises = False, ctor_raises = False,
       handler_raises = (\<lambda>_ _. False), listener_raises = (\<lambda>_. False),
       delivered = [], notified = [], scheduled = [] \<rparr>"

subsection \<open>Sets of callbacks\<close>

definition set_add :: "'a \<Rightarrow> 'a list \<Rightarrow> 'a list" where
  "set_add x xs = (if x \<in> set xs then xs else xs @ [x])"

definition set_delete :: "'a \<Rightarrow> 'a list \<Rightarrow> 'a list" where
  "set_delete x xs = filter (\<lambda>y. y \<noteq> x) xs"

definition subscribe :: "msg_type \<Rightarrow> callback \<Rightarrow> client \<Rightarrow> client" where
  "subscribe t h s =
     (let hs = (case handlers s t of None \<Rightarrow> [] | Some hs \<Rightarrow> hs)
      in s\<lparr>handlers := (handlers s)(t \<mapsto> set_add h hs)\<rparr>)"

text \<open>
  The closure that \<open>subscribe type handler\<close> returns. \<open>this.handlers[type]!\<close> is
  dereferenced without a check: \<open>None\<close> is the TypeError of an absent entry.
\<close>

definition unsubscribe :: "msg_type \<Rightarrow> callback \<Rightarrow> client \<Rightarrow> client option" where
  "unsubscribe t h s =
     (case handlers s t of
        None \<Rightarrow> None
      | Some hs \<Rightarrow> Some (s\<lparr>handlers := (handlers s)(t \<mapsto> set_delete h hs)\<rparr>))"

fun listeners :: "lifecycle \<Rightarrow> client \<Rightarrow> callback list" where
  "listeners Connected s = on_connected s"
| "listeners Disconnected s = on_disconnected s"
| "listeners Errored s = on_error s"

fun on :: "lifecycle \<Rightarrow> callback \<Rightarrow> client \<Rightarrow> client" where
  "on Connected h s = s\<lparr>on_connected := set_add h (on_connected s)\<rparr>"
| "on Disconnected h s = s\<lparr>on_disconnected := set_add h (on_disconnected s)\<rparr>"
| "on Errored h s = s\<lparr>on_error := set_add h (on_error s)\<rparr>"

fun off :: "lifecycle \<Rightarrow> callback \<Rightarrow> client \<Rightarrow> client" where
  "off Connected h s = s\<lparr>on_connected := set_delete h (on_connected s)\<rparr>"
| "off Disconnected h s = s\<lparr>on_disconnected := set_delete h (on_disconnected s)\<rparr>"
| "off Errored h s = s\<lparr>on_error := set_delete h (on_error s)\<rparr>"

subsection \<open>Dispatch\<close>

text \<open>
  \<open>this.handlers\<close> is a plain object: a key it does not own is looked up on
  \<open>Object.prototype\<close>, whose members are neither undefined nor iterable.
\<close>

definition object_prototype_keys :: "string list" where
  "object_prototype_keys =
     [''constructor'', ''__proto__'', ''hasOwnProperty'', ''isPrototypeOf'',
      ''propertyIsEnumerable'', ''toLocaleString'', ''toString'', ''valueOf'',
      ''__defineGetter__'', ''__defineSetter__'', ''__lookupGetter__'', ''__lookupSetter__'']"

datatype lookup = Undefined | Inherited | Own "callback list"

definition handlers_get :: "string \<Rightarrow> client \<Rightarrow> lookup" where
  "handlers_get k s =
     (case type_of_tag k of
        Some t \<Rightarrow> (case handlers s t of None \<Rightarrow> Undefined | Some hs \<Rightarrow> Own hs)
      | None \<Rightarrow> if k \<in> set object_prototype_keys then Inherited else Undefined)"

text \<open>One turn of \<open>for (const h of setForType) { try { h(msg) } catch {} }\<close>.\<close>

definition invoke :: "callback \<Rightarrow> parsed \<Rightarrow> client \<Rightarrow> exn option \<times> client" where
  "invoke h v s =
     (let s' = s\<lparr>delivered := delivered s @ [(h, v)]\<rparr>
      in if handler_raises s h v then (Some TypeError, s') else (None, s'))"

fun deliver :: "callback list \<Rightarrow> parsed \<Rightarrow> client \<Rightarrow> client" where
  "deliver [] v s = s"
| "deliver (h # hs) v s =
     (case invoke h v s of
        (Some e, s') \<Rightarrow> deliver hs v s'
      | (None, s') \<Rightarrow> deliver hs v s')"

definition dispatch :: "parsed \<Rightarrow> client \<Rightarrow> exn option \<times> client" where
  "dispatch v s =
     (case v of
        Null \<Rightarrow> (Some TypeError, s)
      | _ \<Rightarrow>
        (case handlers_get (type_key v) s of
           Undefined \<Rightarrow> (None, s)
         | Inherited \<Rightarrow> (Some TypeError, s)
         | Own hs \<Rightarrow> if hs = [] then (None, s) else (None, deliver hs v s)))"

text \<open>\<open>ws.onmessage\<close>: parse, dispatch, and swallow whatever either raises.\<close>

definition onmessage :: "inbound \<Rightarrow> client \<Rightarrow> exn option \<times> client" where
  "onmessage d s =
     (case d of
        Unparseable \<Rightarrow> (None, s)
      | Parsed v \<Rightarrow> (case dispatch v s of (Some e, s') \<Rightarrow> (None, s') | (None, s') \<Rightarrow> (None, s')))"

subsection \<open>Sending\<close>

definition isConnected :: "client \<Rightarrow> bool" where
  "isConnected s =
     (case ws s of
        None \<Rightarrow> False
      | Some i \<Rightarrow> i < length (sockets s) \<and> readyState (sockets s ! i) = OPEN)"

definition enqueue :: "RealtimeClientMessage \<Rightarrow> client \<Rightarrow> client" where
  "enqueue m s = s\<lparr>messageQueue := messageQueue s @ [m]\<rparr>"

text \<open>\<open>ws.send(JSON.stringify(message))\<close> on socket \<open>i\<close>: the frame joins what the socket
  has been handed, unless the call raises.\<close>

definition transmit :: "nat \<Rightarrow> RealtimeClientMessage \<Rightarrow> client \<Rightarrow> exn option \<times> client" where
  "transmit i m s =
     (let k = sockets s ! i
      in if send_raises k then (Some TypeError, s)
         else (None, s\<lparr>sockets := (sockets s)[i := k\<lparr>sent := sent k @ [m]\<rparr>]\<rparr>))"

definition send :: "RealtimeClientMessage \<Rightarrow> client \<Rightarrow> client" where
  "send m s =
     (case ws s of
        None \<Rightarrow> enqueue m s
      | Some i \<Rightarrow>
          if \<not> isConnected s then enqueue m s
          else (case transmit i m s of
                  (Some e, s') \<Rightarrow> enqueue m s'
                | (None, s') \<Rightarrow> s'))"

fun send_each :: "RealtimeClientMessage list \<Rightarrow> client \<Rightarrow> client" where
  "send_each [] s = s"
| "send_each (m # ms) s = send_each ms (send m s)"

subsection \<open>Timers\<close>

text \<open>Timer handles are positive integers, handed out in increasing order.\<close>

definition setTimeout :: "nat \<Rightarrow> client \<Rightarrow> nat \<times> client" where
  "setTimeout d s =
     (next_timer s,
      s\<lparr>timeouts := timeouts s @ [(next_timer s, d)], next_timer := next_timer s + 1,
        scheduled := scheduled s @ [d]\<rparr>)"

definition clearTimeout :: "nat \<Rightarrow> client \<Rightarrow> client" where
  "clearTimeout t s = s\<lparr>timeouts := filter (\<lambda>p. fst p \<noteq> t) (timeouts s)\<rparr>"

definition setInterval :: "nat \<Rightarrow> client \<Rightarrow> nat \<times> client" where
  "setInterval d s =
     (next_timer s,
      s\<lparr>intervals := intervals s @ [(next_timer s, d)], next_timer := next_timer s + 1\<rparr>)"

definition clearInterval :: "nat \<Rightarrow> client \<Rightarrow> client" where
  "clearInterval t s = s\<lparr>intervals := filter (\<lambda>p. fst p \<noteq> t) (intervals s)\<rparr>"

text \<open>\<open>if (this.heartbeatTimer)\<close>, \<open>if (this.reconnectTimer)\<close>: null and 0 are falsy.\<close>

definition truthy_handle :: "nat option \<Rightarrow> bool" where
  "truthy_handle t = (case t of None \<Rightarrow> False | Some n \<Rightarrow> n \<noteq> 0)"

text \<open>\<open>x || ...\<close> on a nullable string: null and the empty string are falsy.\<close>

definition truthy :: "string option \<Rightarrow> string option" where
  "truthy x = (case x of None \<Rightarrow> None | Some v \<Rightarrow> if v = [] then None else Some v)"

definition stopHeartbeat :: "client \<Rightarrow> client" where
  "stopHeartbeat s =
     (if truthy_handle (heartbeatTimer s)
      then (clearInterval (the (heartbeatTimer s)) s)\<lparr>heartbeatTimer := None\<rparr>
      else s)"

definition startHeartbeat :: "client \<Rightarrow> client" where
  "startHeartbeat s =
     (case setInterval HEARTBEAT_INTERVAL_MS (stopHeartbeat s) of
        (t, s') \<Rightarrow> s'\<lparr>heartbeatTimer := Some t\<rparr>)"

text \<open>The interval's callback.\<close>

definition heartbeat_tick :: "nat \<Rightarrow> client \<Rightarrow> client" where
  "heartbeat_tick t s =
     (case user s of None \<Rightarrow> s | Some u \<Rightarrow> send (Heartbeat (id' u) t) s)"

definition clearReconnect :: "client \<Rightarrow> client" where
  "clearReconnect s =
     (let s' = (if truthy_handle (reconnectTimer s)
                then (clearTimeout (the (reconnectTimer s)) s)\<lparr>reconnectTimer := None\<rparr>
                else s)
      in s'\<lparr>reconnectAttempts := 0\<rparr>)"

definition backoff :: "nat \<Rightarrow> nat" where
  "backoff attempt = min (RECONNECT_BASE_DELAY_MS * 2 ^ attempt) RECONNECT_MAX_DELAY_MS"

text \<open>\<open>scheduleReconnect\<close> up to the call of \<open>setTimeout\<close>; the timer's callback is
  \<open>reconnect_timer_fires\<close> below.\<close>

definition scheduleReconnect :: "client \<Rightarrow> client" where
  "scheduleReconnect s0 =
     (let s = stopHeartbeat s0
      in if truthy_handle (reconnectTimer s) then s
         else (let attempt = reconnectAttempts s;
                   s1 = s\<lparr>reconnectAttempts := attempt + 1\<rparr>
               in case setTimeout (backoff attempt) s1 of
                    (t, s2) \<Rightarrow> s2\<lparr>reconnectTimer := Some t\<rparr>))"

subsection \<open>Lifecycle listeners\<close>

definition call_listener :: "lifecycle \<Rightarrow> callback \<Rightarrow> client \<Rightarrow> exn option \<times> client" where
  "call_listener ev h s =
     (let s' = s\<lparr>notified := notified s @ [(h, ev)]\<rparr>
      in if listener_raises s h then (Some TypeError, s') else (None, s'))"

fun notify_each :: "lifecycle \<Rightarrow> callback list \<Rightarrow> client \<Rightarrow> client" where
  "notify_each ev [] s = s"
| "notify_each ev (h # hs) s =
     (case call_listener ev h s of
        (Some e, s') \<Rightarrow> notify_each ev hs s'
      | (None, s') \<Rightarrow> notify_each ev hs s')"

definition notify :: "lifecycle \<Rightarrow> client \<Rightarrow> client" where
  "notify ev s = notify_each ev (listeners ev s) s"

subsection \<open>Opening the transport\<close>

datatype promise = Pending | Fulfilled | Rejected

text \<open>
  \<open>openSocket\<close> up to the return of its promise: \<open>new WebSocket(url)\<close> either raises,
  and the promise is rejected, or yields a socket in state CONNECTING that becomes
  \<open>this.ws\<close>. The four callbacks it installs on the socket are \<open>onopen\<close>, \<open>onmessage\<close>,
  \<open>onerror\<close> and \<open>onclose\<close>.
\<close>

definition openSocket :: "opener \<Rightarrow> client \<Rightarrow> promise \<times> client" where
  "openSocket w s =
     (if ctor_raises s then (Rejected, s)
      else (Pending,
            s\<lparr>sockets := sockets s @
                 [\<lparr>readyState = CONNECTING, sent = [], send_raises = False, awaited_by = w\<rparr>],
              ws := Some (length (sockets s))\<rparr>))"

definition onopen :: "client \<Rightarrow> client" where
  "onopen s =
     (let s1 = s\<lparr>reconnectAttempts := 0\<rparr>;
          queue = messageQueue s1;
          s2 = send_each queue (s1\<lparr>messageQueue := []\<rparr>)
      in notify Connected s2)"

definition onerror :: "client \<Rightarrow> client" where
  "onerror s = notify Errored s"

definition onclose :: "client \<Rightarrow> client" where
  "onclose s = scheduleReconnect (notify Disconnected s)"

text \<open>What runs once the promise of \<open>openSocket\<close> is fulfilled: the rest of \<open>connect\<close>,
  the rest of \<open>reconnect\<close>, or the \<open>then\<close> branch of the reconnect timer.\<close>

fun resume :: "opener \<Rightarrow> client \<Rightarrow> client" where
  "resume (By_connect room) s = send (Join (Some room) (user s)) (startHeartbeat s)"
| "resume By_reconnect s =
     (case user s of None \<Rightarrow> s | Some u \<Rightarrow> send (Join (roomId s) (Some u)) s)"
| "resume By_timer s =
     (if user s \<noteq> None \<and> truthy (roomId s) \<noteq> None
      then startHeartbeat (send (Join (roomId s) (user s)) s)
      else s)"

subsection \<open>Events of the environment\<close>

definition set_readyState :: "nat \<Rightarrow> ready_state \<Rightarrow> client \<Rightarrow> client" where
  "set_readyState i r s = s\<lparr>sockets := (sockets s)[i := (sockets s ! i)\<lparr>readyState := r\<rparr>]\<rparr>"

text \<open>Socket \<open>i\<close> reports open: \<open>onopen\<close> runs with the socket OPEN, then the awaiting code.\<close>

definition socket_opens :: "nat \<Rightarrow> client \<Rightarrow> client" where
  "socket_opens i s =
     (if i < length (sockets s) \<and> readyState (sockets s ! i) = CONNECTING
      then resume (awaited_by (sockets s ! i)) (onopen (set_readyState i OPEN s))
      else s)"

definition socket_errors :: "nat \<Rightarrow> client \<Rightarrow> client" where
  "socket_errors i s =
     (if i < length (sockets s) \<and> readyState (sockets s ! i) \<noteq> CLOSED then onerror s else s)"

definition socket_closes :: "nat \<Rightarrow> client \<Rightarrow> client" where
  "socket_closes i s =
     (if i < length (sockets s) \<and> readyState (sockets s ! i) \<noteq> CLOSED
      then onclose (set_readyState i CLOSED s)
      else s)"

definition socket_receives :: "nat \<Rightarrow> inbound \<Rightarrow> client \<Rightarrow> exn option \<times> client" where
  "socket_receives i d s =
     (if i < length (sockets s) \<and> readyState (sockets s ! i) \<in> {OPEN, CLOSING}
      then onmessage d s
      else (None, s))"

text \<open>The callback that \<open>scheduleReconnect\<close> hands to \<open>setTimeout\<close>, run when timer \<open>t\<close>
  expires; a rejected \<open>openSocket\<close> takes the \<open>catch\<close> branch.\<close>

definition reconnect_timer_fires :: "nat \<Rightarrow> client \<Rightarrow> client" where
  "reconnect_timer_fires t s0 =
     (if t \<notin> fst ` set (timeouts s0) then s0
      else (let s = (clearTimeout t s0)\<lparr>reconnectTimer := None\<rparr>
            in if truthy (roomId s) = None then s
               else (case openSocket By_timer s of
                       (Rejected, s') \<Rightarrow> scheduleReconnect s'
                     | (_, s') \<Rightarrow> s')))"

definition heartbeat_timer_fires :: "nat \<Rightarrow> nat \<Rightarrow> client \<Rightarrow> client" where
  "heartbeat_timer_fires i t s =
     (if i \<in> fst ` set (intervals s) then heartbeat_tick t s else s)"

subsection \<open>The public methods\<close>

text \<open>What \<open>connect\<close> draws from the clock and the random sources.\<close>

record env =
  now :: nat
  id_now :: nat
  randomUUID :: "string option"
  random36 :: string
  animal_index :: nat
  name_number :: nat
  hue_index :: nat

text \<open>A number in a template literal: its decimal digits.\<close>

definition digit :: "nat \<Rightarrow> char" where
  "digit n = ''0123456789'' ! n"

fun string_of_nat :: "nat \<Rightarrow> string" where
  "string_of_nat n =
     (if n < 10 then [digit n]
      else string_of_nat (n div 10) @ [digit (n mod 10)])"

declare string_of_nat.simps [simp del]

definition generateId :: "env \<Rightarrow> string" where
  "generateId e =
     (case randomUUID e of
        Some u \<Rightarrow> u
      | None \<Rightarrow> ''u_'' @ random36 e @ ''_'' @ string_of_nat (id_now e))"

definition animals :: "string list" where
  "animals = [''Orion'', ''Lyra'', ''Vega'', ''Draco'', ''Nova'', ''Cosmo'', ''Atlas'', ''Luna'']"

definition generateDisplayName :: "env \<Rightarrow> string" where
  "generateDisplayName e = animals ! animal_index e @ '' '' @ string_of_nat (name_number e)"

definition hues :: "nat list" where
  "hues = [200, 220, 260, 300, 340, 20, 45, 160]"

definition generateColor :: "env \<Rightarrow> string" where
  "generateColor e = ''hsl('' @ string_of_nat (hues ! hue_index e) @ '' 80% 60%)''"

text \<open>\<open>this.storage.getItem(k)\<close>, which no \<open>try\<close> surrounds.\<close>

definition getItem :: "string \<Rightarrow> client \<Rightarrow> exn + string option" where
  "getItem k s = (if getItem_raises s then Inl TypeError else Inr (storage s k))"

text \<open>\<open>try { this.storage.setItem(k, v) } catch {}\<close>.\<close>

definition setItem :: "string \<Rightarrow> string \<Rightarrow> client \<Rightarrow> client" where
  "setItem k v s = (if storage_raises s then s else s\<lparr>storage := (storage s)(k \<mapsto> v)\<rparr>)"

definition or_else :: "string option \<Rightarrow> string \<Rightarrow> string" where
  "or_else x d = (case truthy x of Some v \<Rightarrow> v | None \<Rightarrow> d)"

text \<open>
  \<open>connect\<close> up to the return of the promise of \<open>openSocket\<close>. The stored id is read
  only when the argument is falsy; the stored name and color are read in every case. An
  exception of \<open>getItem\<close> rejects the promise of \<open>connect\<close> there and then.
\<close>

definition connect :: "string \<Rightarrow> string option \<Rightarrow> env \<Rightarrow> client \<Rightarrow> promise \<times> client" where
  "connect room userId e s0 =
     (let s1 = s0\<lparr>roomId := Some room\<rparr>
      in case (case truthy userId of
                 Some a \<Rightarrow> Inr a
               | None \<Rightarrow>
                  (case getItem ''exo-user-id'' s1 of
                     Inl x \<Rightarrow> Inl x
                   | Inr stored \<Rightarrow> Inr (or_else stored (generateId e)))) of
           Inl x \<Rightarrow> (Rejected, s1)
         | Inr existingId \<Rightarrow>
            (let s2 = setItem ''exo-user-id'' existingId s1
             in case getItem ''exo-user-name'' s2 of
                  Inl x \<Rightarrow> (Rejected, s2)
                | Inr n \<Rightarrow>
                   (case getItem ''exo-user-color'' s2 of
                      Inl x \<Rightarrow> (Rejected, s2)
                    | Inr c \<Rightarrow>
                       (let name = or_else n (generateDisplayName e);
                            color = or_else c (generateColor e);
                            s3 = setItem ''exo-user-name'' name s2;
                            s4 = setItem ''exo-user-color'' color s3;
                            s5 = s4\<lparr>user := Some \<lparr>id' = existingId, name = name, color = color,
                                                      joinedAt = now e, lastSeen = now e,
                                                      selectedPlanetId = None,
                                                      isViewingPlanet = None\<rparr>\<rparr>
                        in openSocket (By_connect room) s5))))"

text \<open>\<open>ws.close()\<close>: an open or connecting socket starts closing; its close event
  comes later, from the environment.\<close>

definition ws_close :: "nat \<Rightarrow> client \<Rightarrow> client" where
  "ws_close i s =
     (if i < length (sockets s) \<and> readyState (sockets s ! i) \<in> {CONNECTING, OPEN}
      then set_readyState i CLOSING s else s)"

definition disconnect :: "client \<Rightarrow> client" where
  "disconnect s0 =
     (let s1 = stopHeartbeat s0;
          s2 = (case ws s1 of None \<Rightarrow> s1 | Some i \<Rightarrow> ws_close i s1);
          s3 = s2\<lparr>ws := None\<rparr>
      in clearReconnect s3)"

definition reconnect :: "client \<Rightarrow> promise \<times> client" where
  "reconnect s =
     (if truthy (roomId s) = None then (Fulfilled, s)
      else if isConnected s then (Fulfilled, s)
      else openSocket By_reconnect s)"

text \<open>\<open>Partial<UserPresence>\<close>: a key is absent (\<open>None\<close>) or present with a value, which
  for the two optional fields may be \<open>undefined\<close>. A \<open>lastSeen\<close> key is overwritten
  by the clock whatever it holds.\<close>

record partial =
  p_id :: "UserId option"
  p_name :: "string option"
  p_color :: "string option"
  p_joinedAt :: "nat option"
  p_selectedPlanetId :: "PlanetId option option"
  p_isViewingPlanet :: "PlanetId option option"

definition spread :: "UserPresence \<Rightarrow> partial \<Rightarrow> UserPresence" where
  "spread u p =
     u\<lparr>id' := (case p_id p of None \<Rightarrow> id' u | Some v \<Rightarrow> v),
       name := (case p_name p of None \<Rightarrow> name u | Some v \<Rightarrow> v),
       color := (case p_color p of None \<Rightarrow> color u | Some v \<Rightarrow> v),
       joinedAt := (case p_joinedAt p of None \<Rightarrow> joinedAt u | Some v \<Rightarrow> v),
       selectedPlanetId := (case p_selectedPlanetId p of None \<Rightarrow> selectedPlanetId u | Some v \<Rightarrow> v),
       isViewingPlanet := (case p_isViewingPlanet p of None \<Rightarrow> isViewingPlanet u | Some v \<Rightarrow> v)\<rparr>"

definition updatePresence :: "partial \<Rightarrow> nat \<Rightarrow> client \<Rightarrow> client" where
  "updatePresence p t s =
     (case user s of
        None \<Rightarrow> s
      | Some u \<Rightarrow> s\<lparr>user := Some ((spread u p)\<lparr>lastSeen := t\<rparr>)\<rparr>)"

definition sendCamera :: "string \<Rightarrow> CameraState \<Rightarrow> client \<Rightarrow> client" where
  "sendCamera planetId cam s =
     (case user s of None \<Rightarrow> s | Some u \<Rightarrow> send (Camera planetId cam (id' u)) s)"

subsection \<open>Runs\<close>

text \<open>
  Everything that can happen to a client: a call of a public method by the application,
  an event of a socket, the expiry of a timer, or a change in what the environment will
  let succeed. A run applies a list of these, oldest first.
\<close>

datatype event =
    Call_connect string "string option" env
  | Call_disconnect
  | Call_reconnect
  | Call_send RealtimeClientMessage
  | Call_updatePresence partial nat
  | Call_sendCamera string CameraState
  | Call_subscribe msg_type callback
  | Call_unsubscribe msg_type callback
  | Call_on lifecycle callback
  | Call_off lifecycle callback
  | Socket_opens nat
  | Socket_errors nat
  | Socket_closes nat
  | Socket_receives nat inbound
  | Reconnect_timer_fires nat
  | Heartbeat_timer_fires nat nat
  | Env_ctor_raises bool
  | Env_storage_raises bool
  | Env_getItem_raises bool
  | Env_send_raises nat bool

fun step :: "event \<Rightarrow> client \<Rightarrow> client" where
  "step (Call_connect room userId e) s = snd (connect room userId e s)"
| "step Call_disconnect s = disconnect s"
| "step Call_reconnect s = snd (reconnect s)"
| "step (Call_send m) s = send m s"
| "step (Call_updatePresence p t) s = updatePresence p t s"
| "step (Call_sendCamera planetId cam) s = sendCamera planetId cam s"
| "step (Call_subscribe t h) s = subscribe t h s"
| "step (Call_unsubscribe t h) s = (case unsubscribe t h s of None \<Rightarrow> s | Some s' \<Rightarrow> s')"
| "step (Call_on ev h) s = on ev h s"
| "step (Call_off ev h) s = off ev h s"
| "step (Socket_opens i) s = socket_opens i s"
| "step (Socket_errors i) s = socket_errors i s"
| "step (Socket_closes i) s = socket_closes i s"
| "step (Socket_receives i d) s = snd (socket_receives i d s)"
| "step (Reconnect_timer_fires t) s = reconnect_timer_fires t s"
| "step (Heartbeat_timer_fires i t) s = heartbeat_timer_fires i t s"
| "step (Env_ctor_raises b) s = s\<lparr>ctor_raises := b\<rparr>"
| "step (Env_storage_raises b) s = s\<lparr>storage_raises := b\<rparr>"
| "step (Env_getItem_raises b) s = s\<lparr>getItem_raises := b\<rparr>"
| "step (Env_send_raises i b) s =
     (if i < length (sockets s)
      then s\<lparr>sockets := (sockets s)[i := (sockets s ! i)\<lparr>send_raises := b\<rparr>]\<rparr>
      else s)"

fun run :: "event list \<Rightarrow> client \<Rightarrow> client" where
  "run [] s = s"
| "run (e # es) s = run es (step e s)"

text \<open>The subscribers of a tag, in insertion order: \<open>this.handlers[type]\<close>, or none.\<close>

definition subscribers :: "msg_type \<Rightarrow> client \<Rightarrow> callback list" where
  "subscribers t s = (case handlers s t of None \<Rightarrow> [] | Some hs \<Rightarrow> hs)"

text \<open>Every message the client has been given and still answers for: those waiting in
  the queue and those handed to a socket.\<close>

definition held :: "client \<Rightarrow> RealtimeClientMessage multiset" where
  "held s = mset (messageQueue s) + mset (concat (map sent (sockets s)))"

section \<open>The projection layer (RealtimeProvider)\<close>

text \<open>A \<open>Map\<close> with string keys lists its entries in insertion order.\<close>

definition map_get :: "string \<Rightarrow> (string \<times> 'v) list \<Rightarrow> 'v option" where
  "map_get k m = map_of m k"

fun map_set :: "string \<Rightarrow> 'v \<Rightarrow> (string \<times> 'v) list \<Rightarrow> (string \<times> 'v) list" where
  "map_set k v [] = [(k, v)]"
| "map_set k v (e # m) = (if fst e = k then (k, v) # m else e # map_set k v m)"

definition map_delete :: "string \<Rightarrow> (string \<times> 'v) list \<Rightarrow> (string \<times> 'v) list" where
  "map_delete k m = filter (\<lambda>e. fst e \<noteq> k) m"

record ConflictInfo =
  planetId :: PlanetId
  lockedBy :: string
  reason :: "string option"

text \<open>
  The state of \<open>RealtimeProvider\<close> that selection and conflicts act on: the client behind
  \<open>clientRef\<close>, the \<open>selectedPlanets\<close> mirror, \<open>lastConflict\<close> and \<open>lastSelectAttemptRef\<close>.
  A state updater passed to a setter is applied to the state as it stands.
\<close>

record provider =
  clientRef :: "client option"
  selectedPlanets :: "(PlanetId \<times> UserId list) list"
  lastConflict :: "ConflictInfo option"
  lastSelectAttemptRef :: "string option"

definition no_keys :: partial where
  "no_keys = \<lparr>p_id = None, p_name = None, p_color = None, p_joinedAt = None,
              p_selectedPlanetId = None, p_isViewingPlanet = None\<rparr>"

definition entry :: "string \<Rightarrow> (string \<times> 'v list) list \<Rightarrow> 'v list" where
  "entry k m = (case map_get k m of None \<Rightarrow> [] | Some l \<Rightarrow> l)"

text \<open>The handler of \<open>selection_state\<close>; \<open>selected\<close> is \<open>Object.entries(msg.selected)\<close>.\<close>

definition on_selection_state :: "(string \<times> string list) list \<Rightarrow> provider \<Rightarrow> provider" where
  "on_selection_state selected p =
     p\<lparr>selectedPlanets := foldl (\<lambda>m e. map_set (fst e) (snd e) m) [] selected\<rparr>"

definition selectPlanet :: "string \<Rightarrow> nat \<Rightarrow> provider \<Rightarrow> bool \<times> provider" where
  "selectPlanet pid t p =
     (case clientRef p of
        None \<Rightarrow> (False, p)
      | Some c \<Rightarrow>
         (case user c of
            None \<Rightarrow> (False, p)
          | Some me \<Rightarrow>
             (let list = entry pid (selectedPlanets p);
                  list' = (if id' me \<in> set list then list else list @ [id' me]);
                  c1 = updatePresence (no_keys\<lparr>p_selectedPlanetId := Some (Some pid)\<rparr>) t c;
                  c2 = send (Select pid (id' me)) c1
              in (True, p\<lparr>selectedPlanets := map_set pid list' (selectedPlanets p),
                           lastSelectAttemptRef := Some pid,
                           clientRef := Some c2\<rparr>))))"

text \<open>The handler of \<open>conflict\<close>, given the fields of the message.\<close>

definition on_conflict :: "string \<Rightarrow> string \<Rightarrow> string option \<Rightarrow> nat \<Rightarrow> provider \<Rightarrow> provider" where
  "on_conflict pid locker why t p =
     (case clientRef p of
        None \<Rightarrow> p
      | Some c \<Rightarrow>
         (case user c of
            None \<Rightarrow> p
          | Some me \<Rightarrow>
             if truthy (lastSelectAttemptRef p) \<noteq> None \<and> Some pid = lastSelectAttemptRef p
             then (let list = filter (\<lambda>u. u \<noteq> id' me) (entry pid (selectedPlanets p));
                       next = (if list = [] then map_delete pid (selectedPlanets p)
                               else map_set pid list (selectedPlanets p));
                       c1 = updatePresence (no_keys\<lparr>p_selectedPlanetId := Some None\<rparr>) t c
                   in p\<lparr>selectedPlanets := next,
                        clientRef := Some c1,
                        lastConflict := Some \<lparr>planetId = pid, lockedBy = locker, reason = why\<rparr>,
                        lastSelectAttemptRef := None\<rparr>)
             else p))"

text \<open>\<open>unselectPlanet\<close>, the sibling of \<open>selectPlanet\<close>.\<close>

definition unselectPlanet :: "string \<Rightarrow> nat \<Rightarrow> provider \<Rightarrow> provider" where
  "unselectPlanet pid t p =
     (case clientRef p of
        None \<Rightarrow> p
      | Some c \<Rightarrow>
         (case user c of
            None \<Rightarrow> p
          | Some me \<Rightarrow>
             (let list = filter (\<lambda>u. u \<noteq> id' me) (entry pid (selectedPlanets p));
                  next = (if list = [] then map_delete pid (selectedPlanets p)
                          else map_set pid list (selectedPlanets p));
                  c1 = updatePresence (no_keys\<lparr>p_selectedPlanetId := Some None\<rparr>) t c;
                  c2 = send (Unselect pid (id' me)) c1
              in p\<lparr>selectedPlanets := next, clientRef := Some c2\<rparr>)))"

section \<open>Failed attempts to open the transport\<close>

text \<open>
  An attempt fails in one of two ways: the socket is created, reports an error and
  closes without having opened, or the constructor raises. The attempt made by
  \<open>connect\<close> that leads to retries is of the first kind; a retry is the expiry of the
  pending reconnect timer followed by the failure of the attempt it starts.
\<close>

datatype failure = Refused | Raised

definition attempt_refused :: "client \<Rightarrow> client" where
  "attempt_refused s = (case ws s of None \<Rightarrow> s | Some i \<Rightarrow> socket_closes i (socket_errors i s))"

definition retry_fails :: "failure \<Rightarrow> client \<Rightarrow> client" where
  "retry_fails f s =
     (case timeouts s of
        [] \<Rightarrow> s
      | p # _ \<Rightarrow>
         (case f of
            Raised \<Rightarrow> reconnect_timer_fires (fst p) (s\<lparr>ctor_raises := True\<rparr>)
          | Refused \<Rightarrow> attempt_refused (reconnect_timer_fires (fst p) (s\<lparr>ctor_raises := False\<rparr>))))"

fun retries :: "failure list \<Rightarrow> client \<Rightarrow> client" where
  "retries [] s = s"
| "retries (f # fs) s = retries fs (retry_fails f s)"

section \<open>Notions used in the statements\<close>

text \<open>An inbound payload that the receiver has nothing to do with: it does not parse,
  or the tag of the parsed value is none of the seven, or nobody subscribes to it.\<close>

definition unhandled :: "inbound \<Rightarrow> client \<Rightarrow> bool" where
  "unhandled d s =
     (case d of
        Unparseable \<Rightarrow> True
      | Parsed v \<Rightarrow> (case type_of_tag (type_key v) of None \<Rightarrow> True | Some t \<Rightarrow> subscribers t s = []))"

text \<open>The invocations of callback \<open>h\<close> with values tagged \<open>t\<close>, in a trace.\<close>

definition calls :: "callback \<Rightarrow> msg_type \<Rightarrow> (callback \<times> parsed) list \<Rightarrow> (callback \<times> parsed) list" where
  "calls h t tr = filter (\<lambda>d. fst d = h \<and> type_of_tag (type_key (snd d)) = Some t) tr"

text \<open>The state between two attempts, after \<open>n + 1\<close> failures: the room is set, the
  counter and the log of delays have \<open>n + 1\<close> entries, and one timer is pending with the
  delay for attempt \<open>n\<close>.\<close>

definition waiting :: "nat \<Rightarrow> client \<Rightarrow> bool" where
  "waiting n s \<longleftrightarrow>
     truthy (roomId s) \<noteq> None \<and> reconnectAttempts s = Suc n
     \<and> scheduled s = map backoff [0..<Suc n] \<and> next_timer s \<noteq> 0
     \<and> (\<exists>t. t \<noteq> 0 \<and> timeouts s = [(t, backoff n)] \<and> reconnectTimer s = Some t)"

text \<open>At most one timeout is pending, and it is the one \<open>reconnectTimer\<close> holds.\<close>

definition one_timer :: "client \<Rightarrow> bool" where
  "one_timer s \<longleftrightarrow>
     next_timer s \<noteq> 0
     \<and> ((reconnectTimer s = None \<and> timeouts s = [])
        \<or> (\<exists>t d. t \<noteq> 0 \<and> reconnectTimer s = Some t \<and> timeouts s = [(t, d)]))"

text \<open>The events that leave the identity of the user alone: every one but a new
  \<open>connect\<close> and an \<open>updatePresence\<close> that carries an \<open>id\<close>.\<close>

fun keeps_identity :: "event \<Rightarrow> bool" where
  "keeps_identity (Call_connect room userId e) = False"
| "keeps_identity (Call_updatePresence p t) = (p_id p = None)"
| "keeps_identity _ = True"

text \<open>The client is in \<open>room\<close> as user \<open>i\<close>.\<close>

definition identity :: "UserId \<Rightarrow> string \<Rightarrow> client \<Rightarrow> bool" where
  "identity i room s \<longleftrightarrow> roomId s = Some room \<and> (\<exists>u. user s = Some u \<and> id' u = i)"

text \<open>A client with three subscribers to \<open>presence\<close>, the first of which raises.\<close>

definition three_subscribers :: client where
  "three_subscribers =
     (subscribe T_presence 3 (subscribe T_presence 2 (subscribe T_presence 1
        (new_client None Map.empty))))\<lparr>handler_raises := (\<lambda>h v. h = 1)\<rparr>"

text \<open>The same client after \<open>connect\<close> and the opening of its socket.\<close>

definition demo_env :: env where
  "demo_env = \<lparr>now = 5, id_now = 4, randomUUID = Some ''abc'', random36 = ''xyz'',
                animal_index = 2, name_number = 123, hue_index = 7\<rparr>"

definition demo_user :: UserPresence where
  "demo_user = \<lparr>id' = ''abc'', name = ''Vega 123'', color = ''hsl(160 80% 60%)'',
                 joinedAt = 5, lastSeen = 5, selectedPlanetId = None, isViewingPlanet = None\<rparr>"

definition live_client :: client where
  "live_client = socket_opens 0 (snd (connect ''R1'' None demo_env three_subscribers))"

text \<open>And after the unsubscribe function of callback 2 has been called.\<close>

definition without_2 :: client where
  "without_2 = the (unsubscribe T_presence 2 (subscribe T_presence 2 live_client))"

text \<open>The live client after its socket has closed.\<close>

definition dropped_client :: client where
  "dropped_client = socket_closes 0 live_client"

text \<open>A provider around the live client, with one planet selected by a peer.\<close>

definition demo_provider :: provider where
  "demo_provider =
     \<lparr>clientRef = Some live_client, selectedPlanets = [(''Kepler-22b'', [''u2''])],
      lastConflict = None, lastSelectAttemptRef = None\<rparr>"

text \<open>The live client is disconnected; the socket it closed reports its close; the
  timer this schedules expires; the socket this creates opens.\<close>

definition after_disconnect :: client where
  "after_disconnect =
     run [Call_disconnect, Socket_closes 0, Reconnect_timer_fires 2, Socket_opens 1] live_client"

text \<open>The live client loses its socket and the reconnect timer expires; with that attempt
  in flight the client is disconnected; the attempt's socket reports its close; the timer
  this schedules expires; the socket this creates opens.\<close>

definition after_disconnect_in_flight :: client where
  "after_disconnect_in_flight =
     run [Socket_closes 0, Reconnect_timer_fires 2, Call_disconnect, Socket_closes 1,
          Reconnect_timer_fires 3, Socket_opens 2] live_client"

text \<open>The live client loses its socket; the application calls \<open>reconnect\<close>; the socket
  this creates opens.\<close>

definition after_manual_reconnect :: client where
  "after_manual_reconnect = run [Socket_closes 0, Call_reconnect, Socket_opens 1] live_client"

text \<open>The live client loses its socket; the reconnect timer expires; the socket this
  creates opens.\<close>

definition after_timed_reconnect :: client where
  "after_timed_reconnect =
     run [Socket_closes 0, Reconnect_timer_fires 2, Socket_opens 1] live_client"

text \<open>A client whose storage already holds an id, a name and a color.\<close>

definition returning_client :: client where
  "returning_client =
     three_subscribers\<lparr>storage := [''exo-user-id'' \<mapsto> ''kept'', ''exo-user-name'' \<mapsto> ''Nova 500'',
                                   ''exo-user-color'' \<mapsto> ''hsl(20 80% 60%)'']\<rparr>"

text \<open>The live client is given another id by \<open>updatePresence\<close>, loses its socket, and
  reconnects by its timer.\<close>

definition renamed_client :: client where
  "renamed_client =
     run [Call_updatePresence (no_keys\<lparr>p_id := Some ''other''\<rparr>) 9, Socket_closes 0,
          Reconnect_timer_fires 2, Socket_opens 1] live_client"

text \<open>\<open>connect\<close> where \<open>setItem\<close> raises, on a storage object that has neither
  method (the default where there is no \<open>window\<close>), and where the constructor raises.\<close>

definition connect_readonly :: "promise \<times> client" where
  "connect_readonly = connect ''R1'' None demo_env (three_subscribers\<lparr>storage_raises := True\<rparr>)"

definition connect_unreadable :: "promise \<times> client" where
  "connect_unreadable =
     connect ''R1'' None demo_env (three_subscribers\<lparr>storage_raises := True, getItem_raises := True\<rparr>)"

definition connect_refused :: "promise \<times> client" where
  "connect_refused = connect ''R1'' None demo_env (three_subscribers\<lparr>ctor_raises := True\<rparr>)"

section \<open>Properties of dispatch and subscription\<close>


lemma type_of_tag_tag [simp]: "type_of_tag (tag t) = Some t"
  by (cases t) (simp_all add: type_of_tag_def)

lemma deliver_trace: "deliver hs v s = s\<lparr>delivered := delivered s @ map (\<lambda>h. (h, v)) hs\<rparr>"
  by (induction hs arbitrary: s) (simp_all add: invoke_def Let_def)

lemma notify_each_trace:
  "notify_each ev hs s = s\<lparr>notified := notified s @ map (\<lambda>h. (h, ev)) hs\<rparr>"
  by (induction hs arbitrary: s) (simp_all add: call_listener_def Let_def)

lemma notify_trace:
  "notify ev s = s\<lparr>notified := notified s @ map (\<lambda>h. (h, ev)) (listeners ev s)\<rparr>"
  by (simp add: notify_def notify_each_trace)

lemma dispatch_tagged:
  assumes "type_of_tag (type_key v) = Some t"
  shows "dispatch v s =
           (None, s\<lparr>delivered := delivered s @ map (\<lambda>h. (h, v)) (subscribers t s)\<rparr>)"
proof -
  have "v \<noteq> Null" using assms by (auto simp: type_of_tag_def)
  then show ?thesis using assms
    by (cases v)
       (simp_all add: dispatch_def handlers_get_def subscribers_def deliver_trace
                 split: option.splits)
qed

lemma dispatch_untagged:
  assumes "type_of_tag (type_key v) = None"
  shows "snd (dispatch v s) = s"
  using assms by (cases v) (simp_all add: dispatch_def handlers_get_def split: option.splits)

lemma onmessage_parsed: "onmessage (Parsed v) s = (None, snd (dispatch v s))"
  by (simp add: onmessage_def split: prod.splits option.splits)

lemma subscribers_subscribe:
  "subscribers t' (subscribe t h s) =
     (if t' = t then set_add h (subscribers t s) else subscribers t' s)"
  by (simp add: subscribe_def subscribers_def Let_def)

lemma subscribers_three [simp]: "subscribers T_presence three_subscribers = [1, 2, 3]"
  by (simp add: three_subscribers_def subscribers_def subscribe_def new_client_def set_add_def)

text \<open>
  C8. A message whose tag is one of the seven is handed to every subscriber of that tag,
  once each and in the order of the set, whichever of them raise (the state \<open>s\<close> fixes
  which do, and is arbitrary); dispatch itself raises nothing and changes nothing but the
  trace of invocations. The order of the set is the order of registration: a callback
  subscribed for the first time comes after all those already there.
\<close>

theorem dispatch_fan_out_in_registration_order:
  "(type_of_tag (type_key v) = Some t \<longrightarrow>
      dispatch v s =
        (None, s\<lparr>delivered := delivered s @ map (\<lambda>h. (h, v)) (subscribers t s)\<rparr>))
   \<and> (h \<notin> set (subscribers t s) \<longrightarrow>
        subscribers t (subscribe t h s) = subscribers t s @ [h])"
  by (simp add: dispatch_tagged subscribers_subscribe set_add_def)

theorem dispatch_fan_out_witness:
  "type_of_tag (type_key (Shaped (Presence []))) = Some T_presence
   \<and> handler_raises three_subscribers 1 (Shaped (Presence []))
   \<and> delivered (snd (dispatch (Shaped (Presence [])) three_subscribers)) =
       [(1, Shaped (Presence [])), (2, Shaped (Presence [])), (3, Shaped (Presence []))]
   \<and> 4 \<notin> set (subscribers T_presence three_subscribers)
   \<and> subscribers T_presence (subscribe T_presence 4 three_subscribers) = [1, 2, 3, 4]"
proof -
  have tagged: "type_of_tag (type_key (Shaped (Presence []))) = Some T_presence"
    by (simp add: type_of_tag_def)
  have fresh: "4 \<notin> set (subscribers T_presence three_subscribers)"
    by simp
  have raises: "handler_raises three_subscribers 1 (Shaped (Presence []))"
    by (simp add: three_subscribers_def)
  have trace: "delivered three_subscribers = []"
    by (simp add: three_subscribers_def subscribe_def new_client_def)
  show ?thesis
    using dispatch_fan_out_in_registration_order
            [of "Shaped (Presence [])" T_presence three_subscribers 4]
          tagged fresh raises trace
    by simp
qed

text \<open>
  C7. A payload that does not parse, or whose tag is none of the seven (the null value
  and the keys inherited from \<open>Object.prototype\<close> included), or to whose tag nobody
  subscribes, leaves the whole state as it was (queue, handlers, user, timers, sockets
  and what has been sent on them) and no exception leaves \<open>onmessage\<close>.
\<close>

theorem unhandled_payload_is_dropped:
  "unhandled d s \<Longrightarrow> onmessage d s = (None, s) \<and> socket_receives i d s = (None, s)"
proof -
  assume u: "unhandled d s"
  have "onmessage d s = (None, s)"
  proof (cases d)
    case Unparseable
    then show ?thesis by (simp add: onmessage_def)
  next
    case (Parsed v)
    show ?thesis
    proof (cases "type_of_tag (type_key v)")
      case None
      then show ?thesis using Parsed dispatch_untagged[of v s] by (simp add: onmessage_parsed)
    next
      case (Some t)
      then have "subscribers t s = []" using u Parsed by (simp add: unhandled_def)
      then show ?thesis using Parsed Some by (simp add: onmessage_parsed dispatch_tagged)
    qed
  qed
  then show ?thesis by (simp add: socket_receives_def)
qed

theorem unhandled_payload_witness:
  "unhandled Unparseable three_subscribers
   \<and> unhandled (Parsed Null) three_subscribers
   \<and> unhandled (Parsed (Unshaped ''toString'')) three_subscribers
   \<and> unhandled (Parsed (Shaped (Ack ''join'' None))) three_subscribers
   \<and> dispatch (Unshaped ''toString'') three_subscribers = (Some TypeError, three_subscribers)
   \<and> onmessage Unparseable three_subscribers = (None, three_subscribers)
   \<and> onmessage (Parsed Null) three_subscribers = (None, three_subscribers)
   \<and> onmessage (Parsed (Unshaped ''toString'')) three_subscribers = (None, three_subscribers)
   \<and> onmessage (Parsed (Shaped (Ack ''join'' None))) three_subscribers = (None, three_subscribers)"
proof -
  have a: "unhandled Unparseable three_subscribers"
    by (simp add: unhandled_def)
  have b: "unhandled (Parsed Null) three_subscribers"
    by (simp add: unhandled_def type_of_tag_def)
  have c: "unhandled (Parsed (Unshaped ''toString'')) three_subscribers"
    by (simp add: unhandled_def type_of_tag_def)
  have d: "unhandled (Parsed (Shaped (Ack ''join'' None))) three_subscribers"
    by (simp add: unhandled_def type_of_tag_def subscribers_def three_subscribers_def
                  subscribe_def new_client_def)
  have e: "dispatch (Unshaped ''toString'') three_subscribers = (Some TypeError, three_subscribers)"
    by (simp add: dispatch_def handlers_get_def type_of_tag_def object_prototype_keys_def)
  show ?thesis
    using a b c d e
          unhandled_payload_is_dropped [OF a, of 0] unhandled_payload_is_dropped [OF b, of 0]
          unhandled_payload_is_dropped [OF c, of 0] unhandled_payload_is_dropped [OF d, of 0]
    by simp
qed


section \<open>What each operation leaves alone\<close>

lemma send_frame [simp]:
  "ws (send m s) = ws s"
  "roomId (send m s) = roomId s"
  "user (send m s) = user s"
  "handlers (send m s) = handlers s"
  "heartbeatTimer (send m s) = heartbeatTimer s"
  "reconnectTimer (send m s) = reconnectTimer s"
  "reconnectAttempts (send m s) = reconnectAttempts s"
  "storage (send m s) = storage s"
  "on_connected (send m s) = on_connected s"
  "on_disconnected (send m s) = on_disconnected s"
  "on_error (send m s) = on_error s"
  "timeouts (send m s) = timeouts s"
  "intervals (send m s) = intervals s"
  "next_timer (send m s) = next_timer s"
  "storage_raises (send m s) = storage_raises s"
  "ctor_raises (send m s) = ctor_raises s"
  "handler_raises (send m s) = handler_raises s"
  "listener_raises (send m s) = listener_raises s"
  "delivered (send m s) = delivered s"
  "notified (send m s) = notified s"
  "scheduled (send m s) = scheduled s"
  by (simp_all add: send_def enqueue_def transmit_def Let_def split: option.splits)

lemma send_each_frame [simp]:
  "ws (send_each ms s) = ws s"
  "roomId (send_each ms s) = roomId s"
  "user (send_each ms s) = user s"
  "handlers (send_each ms s) = handlers s"
  "heartbeatTimer (send_each ms s) = heartbeatTimer s"
  "reconnectTimer (send_each ms s) = reconnectTimer s"
  "reconnectAttempts (send_each ms s) = reconnectAttempts s"
  "storage (send_each ms s) = storage s"
  "on_connected (send_each ms s) = on_connected s"
  "on_disconnected (send_each ms s) = on_disconnected s"
  "on_error (send_each ms s) = on_error s"
  "timeouts (send_each ms s) = timeouts s"
  "intervals (send_each ms s) = intervals s"
  "next_timer (send_each ms s) = next_timer s"
  "storage_raises (send_each ms s) = storage_raises s"
  "ctor_raises (send_each ms s) = ctor_raises s"
  "handler_raises (send_each ms s) = handler_raises s"
  "listener_raises (send_each ms s) = listener_raises s"
  "delivered (send_each ms s) = delivered s"
  "notified (send_each ms s) = notified s"
  "scheduled (send_each ms s) = scheduled s"
  by (induction ms arbitrary: s) simp_all


lemma stopHeartbeat_frame [simp]:
  "ws (stopHeartbeat s) = ws s"
  "roomId (stopHeartbeat s) = roomId s"
  "user (stopHeartbeat s) = user s"
  "messageQueue (stopHeartbeat s) = messageQueue s"
  "handlers (stopHeartbeat s) = handlers s"
  "reconnectTimer (stopHeartbeat s) = reconnectTimer s"
  "reconnectAttempts (stopHeartbeat s) = reconnectAttempts s"
  "storage (stopHeartbeat s) = storage s"
  "on_connected (stopHeartbeat s) = on_connected s"
  "on_disconnected (stopHeartbeat s) = on_disconnected s"
  "on_error (stopHeartbeat s) = on_error s"
  "sockets (stopHeartbeat s) = sockets s"
  "timeouts (stopHeartbeat s) = timeouts s"
  "next_timer (stopHeartbeat s) = next_timer s"
  "storage_raises (stopHeartbeat s) = storage_raises s"
  "ctor_raises (stopHeartbeat s) = ctor_raises s"
  "handler_raises (stopHeartbeat s) = handler_raises s"
  "listener_raises (stopHeartbeat s) = listener_raises s"
  "delivered (stopHeartbeat s) = delivered s"
  "notified (stopHeartbeat s) = notified s"
  "scheduled (stopHeartbeat s) = scheduled s"
  by (simp_all add: stopHeartbeat_def clearInterval_def)

lemma startHeartbeat_frame [simp]:
  "ws (startHeartbeat s) = ws s"
  "roomId (startHeartbeat s) = roomId s"
  "user (startHeartbeat s) = user s"
  "messageQueue (startHeartbeat s) = messageQueue s"
  "handlers (startHeartbeat s) = handlers s"
  "reconnectTimer (startHeartbeat s) = reconnectTimer s"
  "reconnectAttempts (startHeartbeat s) = reconnectAttempts s"
  "storage (startHeartbeat s) = storage s"
  "on_connected (startHeartbeat s) = on_connected s"
  "on_disconnected (startHeartbeat s) = on_disconnected s"
  "on_error (startHeartbeat s) = on_error s"
  "sockets (startHeartbeat s) = sockets s"
  "timeouts (startHeartbeat s) = timeouts s"
  "storage_raises (startHeartbeat s) = storage_raises s"
  "ctor_raises (startHeartbeat s) = ctor_raises s"
  "handler_raises (startHeartbeat s) = handler_raises s"
  "listener_raises (startHeartbeat s) = listener_raises s"
  "delivered (startHeartbeat s) = delivered s"
  "notified (startHeartbeat s) = notified s"
  "scheduled (startHeartbeat s) = scheduled s"
  by (simp_all add: startHeartbeat_def setInterval_def)

lemma onmessage_snd:
  "snd (onmessage d s) = (case d of Unparseable \<Rightarrow> s | Parsed v \<Rightarrow> snd (dispatch v s))"
  by (cases d) (simp_all add: onmessage_parsed, simp add: onmessage_def)

lemmas ops =
  connect_def disconnect_def reconnect_def updatePresence_def sendCamera_def subscribe_def
  unsubscribe_def socket_opens_def socket_errors_def socket_closes_def socket_receives_def
  reconnect_timer_fires_def heartbeat_timer_fires_def heartbeat_tick_def
  onopen_def onerror_def onclose_def onmessage_snd openSocket_def notify_trace
  scheduleReconnect_def clearReconnect_def startHeartbeat_def stopHeartbeat_def
  setTimeout_def clearTimeout_def setInterval_def clearInterval_def set_readyState_def
  ws_close_def setItem_def getItem_def

lemmas evals =
  ops send_def enqueue_def transmit_def isConnected_def truthy_def truthy_handle_def
  or_else_def generateId_def generateDisplayName_def generateColor_def animals_def hues_def
  HEARTBEAT_INTERVAL_MS_def RECONNECT_BASE_DELAY_MS_def RECONNECT_MAX_DELAY_MS_def backoff_def
  new_client_def Let_def digit_def string_of_nat.simps

lemma setItem_getItem_raises [simp]: "getItem_raises (setItem k v s) = getItem_raises s"
  by (simp add: setItem_def)

lemma connect_result:
  assumes "\<not> getItem_raises s"
  shows "connect room userId e s =
     (let i = (case truthy userId of
                 Some a \<Rightarrow> a
               | None \<Rightarrow> or_else (storage s ''exo-user-id'') (generateId e));
          s2 = setItem ''exo-user-id'' i (s\<lparr>roomId := Some room\<rparr>);
          n = or_else (storage s2 ''exo-user-name'') (generateDisplayName e);
          c = or_else (storage s2 ''exo-user-color'') (generateColor e);
          s4 = setItem ''exo-user-color'' c (setItem ''exo-user-name'' n s2)
      in openSocket (By_connect room)
           (s4\<lparr>user := Some \<lparr>id' = i, name = n, color = c, joinedAt = now e, lastSeen = now e,
                              selectedPlanetId = None, isViewingPlanet = None\<rparr>\<rparr>))"
  using assms by (cases "truthy userId") (simp_all add: connect_def Let_def getItem_def)

lemma connect_rejected:
  assumes "getItem_raises s"
  shows "fst (connect room userId e s) = Rejected"
    and "user (snd (connect room userId e s)) = user s"
    and "sockets (snd (connect room userId e s)) = sockets s"
    and "ws (snd (connect room userId e s)) = ws s"
  using assms
  by (cases "truthy userId"; simp add: connect_def Let_def getItem_def setItem_def)+

section \<open>The example states\<close>

lemma base:
  "ws three_subscribers = None"
  "roomId three_subscribers = None"
  "user three_subscribers = None"
  "messageQueue three_subscribers = []"
  "handlers three_subscribers = [T_presence \<mapsto> [1, 2, 3]]"
  "heartbeatTimer three_subscribers = None"
  "reconnectTimer three_subscribers = None"
  "reconnectAttempts three_subscribers = 0"
  "storage three_subscribers = Map.empty"
  "on_connected three_subscribers = []"
  "on_disconnected three_subscribers = []"
  "on_error three_subscribers = []"
  "sockets three_subscribers = []"
  "timeouts three_subscribers = []"
  "intervals three_subscribers = []"
  "next_timer three_subscribers = 1"
  "storage_raises three_subscribers = False"
  "getItem_raises three_subscribers = False"
  "ctor_raises three_subscribers = False"
  "handler_raises three_subscribers = (\<lambda>h v. h = 1)"
  "listener_raises three_subscribers = (\<lambda>_. False)"
  "delivered three_subscribers = []"
  "notified three_subscribers = []"
  "scheduled three_subscribers = []"
  by (simp_all add: three_subscribers_def new_client_def subscribe_def Let_def set_add_def)

lemma live_client_eq:
  "live_client =
     three_subscribers
     \<lparr>roomId := Some ''R1'',
        storage :=
          [''exo-user-id'' \<mapsto> ''abc'', ''exo-user-name'' \<mapsto> ''Vega 123'',
           ''exo-user-color'' \<mapsto> ''hsl(160 80% 60%)''],
        user := Some demo_user,
        ws := Some 0, reconnectAttempts := 0, messageQueue := [],
        notified := [], intervals := [(1, 30000)],
        next_timer := 2, heartbeatTimer := Some 1,
        sockets :=
          [\<lparr>readyState = OPEN,
              sent = [Join (Some ''R1'') (Some demo_user)],
              send_raises = False, awaited_by = By_connect ''R1''\<rparr>]\<rparr>"
  by (simp add: live_client_def demo_env_def demo_user_def evals base)

lemma dropped_client_eq:
  "dropped_client =
     three_subscribers
     \<lparr>roomId := Some ''R1'',
        storage :=
          [''exo-user-id'' \<mapsto> ''abc'', ''exo-user-name'' \<mapsto> ''Vega 123'',
           ''exo-user-color'' \<mapsto> ''hsl(160 80% 60%)''],
        user := Some demo_user,
        ws := Some 0, messageQueue := [],
        sockets :=
          [\<lparr>readyState = CLOSED,
              sent = [Join (Some ''R1'') (Some demo_user)],
              send_raises = False, awaited_by = By_connect ''R1''\<rparr>],
        notified := [], intervals := [], heartbeatTimer := None,
        reconnectAttempts := 1, timeouts := [(2, 1000)],
        next_timer := 3, scheduled := [1000],
        reconnectTimer := Some 2\<rparr>"
  by (simp add: dropped_client_def live_client_eq demo_user_def evals base)

lemma disconnected_eq:
  "disconnect live_client =
     three_subscribers
     \<lparr>roomId := Some ''R1'',
        storage :=
          [''exo-user-id'' \<mapsto> ''abc'', ''exo-user-name'' \<mapsto> ''Vega 123'',
           ''exo-user-color'' \<mapsto> ''hsl(160 80% 60%)''],
        user := Some demo_user,
        messageQueue := [], notified := [], next_timer := 2,
        intervals := [], heartbeatTimer := None,
        sockets :=
          [\<lparr>readyState = CLOSING,
              sent = [Join (Some ''R1'') (Some demo_user)],
              send_raises = False, awaited_by = By_connect ''R1''\<rparr>],
        ws := None, reconnectAttempts := 0\<rparr>"
  by (simp add: live_client_eq demo_user_def evals base)

lemma after_disconnect_eq:
  "after_disconnect =
     three_subscribers
     \<lparr>roomId := Some ''R1'',
        storage :=
          [''exo-user-id'' \<mapsto> ''abc'', ''exo-user-name'' \<mapsto> ''Vega 123'',
           ''exo-user-color'' \<mapsto> ''hsl(160 80% 60%)''],
        user := Some demo_user,
        scheduled := [1000], timeouts := [], reconnectTimer := None,
        ws := Some 1, reconnectAttempts := 0, messageQueue := [],
        notified := [],
        sockets :=
          [\<lparr>readyState = CLOSED,
              sent = [Join (Some ''R1'') (Some demo_user)],
              send_raises = False, awaited_by = By_connect ''R1''\<rparr>,
           \<lparr>readyState = OPEN,
              sent = [Join (Some ''R1'') (Some demo_user)],
              send_raises = False, awaited_by = By_timer\<rparr>],
        intervals := [(3, 30000)],
        next_timer := 4,
        heartbeatTimer := Some 3\<rparr>"
  by (simp add: after_disconnect_def live_client_eq demo_user_def evals base)

lemma after_disconnect_in_flight_eq:
  "after_disconnect_in_flight =
     three_subscribers
     \<lparr>roomId := Some ''R1'',
        storage :=
          [''exo-user-id'' \<mapsto> ''abc'', ''exo-user-name'' \<mapsto> ''Vega 123'',
           ''exo-user-color'' \<mapsto> ''hsl(160 80% 60%)''],
        user := Some demo_user,
        scheduled := [1000, 1000], timeouts := [], reconnectTimer := None,
        ws := Some 2, reconnectAttempts := 0, messageQueue := [],
        notified := [],
        sockets :=
          [\<lparr>readyState = CLOSED,
              sent = [Join (Some ''R1'') (Some demo_user)],
              send_raises = False, awaited_by = By_connect ''R1''\<rparr>,
           \<lparr>readyState = CLOSED, sent = [], send_raises = False,
              awaited_by = By_timer\<rparr>,
           \<lparr>readyState = OPEN,
              sent = [Join (Some ''R1'') (Some demo_user)],
              send_raises = False, awaited_by = By_timer\<rparr>],
        intervals := [(4, 30000)],
        next_timer := 5,
        heartbeatTimer := Some 4\<rparr>"
  by (simp add: after_disconnect_in_flight_def live_client_eq demo_user_def evals base)

lemma after_manual_reconnect_eq:
  "after_manual_reconnect =
     three_subscribers
     \<lparr>roomId := Some ''R1'',
        storage :=
          [''exo-user-id'' \<mapsto> ''abc'', ''exo-user-name'' \<mapsto> ''Vega 123'',
           ''exo-user-color'' \<mapsto> ''hsl(160 80% 60%)''],
        user := Some demo_user,
        intervals := [], heartbeatTimer := None,
        timeouts := [(2, 1000)], next_timer := 3,
        scheduled := [1000], reconnectTimer := Some 2,
        ws := Some 1, reconnectAttempts := 0, messageQueue := [],
        notified := [],
        sockets :=
          [\<lparr>readyState = CLOSED,
              sent = [Join (Some ''R1'') (Some demo_user)],
              send_raises = False, awaited_by = By_connect ''R1''\<rparr>,
           \<lparr>readyState = OPEN,
              sent = [Join (Some ''R1'') (Some demo_user)],
              send_raises = False, awaited_by = By_reconnect\<rparr>]\<rparr>"
  by (simp add: after_manual_reconnect_def live_client_eq demo_user_def evals base)

lemma after_timed_reconnect_eq:
  "after_timed_reconnect =
     three_subscribers
     \<lparr>roomId := Some ''R1'',
        storage :=
          [''exo-user-id'' \<mapsto> ''abc'', ''exo-user-name'' \<mapsto> ''Vega 123'',
           ''exo-user-color'' \<mapsto> ''hsl(160 80% 60%)''],
        user := Some demo_user,
        scheduled := [1000], timeouts := [], reconnectTimer := None,
        ws := Some 1, reconnectAttempts := 0, messageQueue := [],
        notified := [],
        sockets :=
          [\<lparr>readyState = CLOSED,
              sent = [Join (Some ''R1'') (Some demo_user)],
              send_raises = False, awaited_by = By_connect ''R1''\<rparr>,
           \<lparr>readyState = OPEN,
              sent = [Join (Some ''R1'') (Some demo_user)],
              send_raises = False, awaited_by = By_timer\<rparr>],
        intervals := [(3, 30000)],
        next_timer := 4,
        heartbeatTimer := Some 3\<rparr>"
  by (simp add: after_timed_reconnect_def live_client_eq demo_user_def evals base)

lemma live_client_fields:
  "sockets live_client =
     [\<lparr>readyState = OPEN, sent = [Join (Some ''R1'') (Some demo_user)], send_raises = False,
       awaited_by = By_connect ''R1''\<rparr>]"
  "ws live_client = Some 0"
  "messageQueue live_client = []"
  "delivered live_client = []"
  "subscribers T_presence live_client = [1, 2, 3]"
  "user live_client = Some demo_user"
  by (simp_all add: live_client_eq subscribers_def base)

lemma resume_handlers [simp]: "handlers (resume w s) = handlers s"
  by (cases w) (simp_all add: ops Let_def split: option.splits)

lemma resume_delivered [simp]: "delivered (resume w s) = delivered s"
  by (cases w) (simp_all add: ops Let_def split: option.splits)

lemma dispatch_handlers [simp]: "handlers (snd (dispatch v s)) = handlers s"
  by (cases "type_of_tag (type_key v)") (simp_all add: dispatch_untagged dispatch_tagged)

lemma on_off_handlers [simp]: "handlers (on ev h s) = handlers s" "handlers (off ev h s) = handlers s"
  "delivered (on ev h s) = delivered s" "delivered (off ev h s) = delivered s"
  by (cases ev; simp)+

lemma step_handlers:
  "(\<forall>t h. e \<noteq> Call_subscribe t h \<and> e \<noteq> Call_unsubscribe t h) \<Longrightarrow> handlers (step e s) = handlers s"
  by (cases e) (simp_all add: ops Let_def split: option.splits prod.splits promise.splits inbound.splits)

lemma step_delivered:
  "(\<forall>i v. e \<noteq> Socket_receives i (Parsed v)) \<Longrightarrow> delivered (step e s) = delivered s"
  by (cases e) (simp_all add: ops Let_def split: option.splits prod.splits promise.splits inbound.splits)

section \<open>Unsubscribing\<close>

lemma calls_dispatch:
  assumes "h \<notin> set (subscribers t s)"
  shows "calls h t (delivered (snd (dispatch v s))) = calls h t (delivered s)"
proof (cases "type_of_tag (type_key v)")
  case None
  then show ?thesis by (simp add: dispatch_untagged)
next
  case (Some t')
  have "filter (\<lambda>d. fst d = h \<and> type_of_tag (type_key (snd d)) = Some t)
          (map (\<lambda>g. (g, v)) (subscribers t' s)) = []"
    using assms Some by (auto simp: filter_empty_conv)
  then show ?thesis using Some by (simp add: dispatch_tagged calls_def)
qed

lemma subscribers_unsubscribe:
  "unsubscribe t' h' s = Some s' \<Longrightarrow>
   subscribers t s' = (if t = t' then set_delete h' (subscribers t s) else subscribers t s)"
  by (auto simp: unsubscribe_def subscribers_def split: option.splits)

lemma subscribers_step:
  assumes "h \<notin> set (subscribers t s)" "e \<noteq> Call_subscribe t h"
  shows "h \<notin> set (subscribers t (step e s))"
proof (cases e)
  case (Call_subscribe t' h')
  then show ?thesis using assms by (auto simp: subscribers_subscribe set_add_def)
next
  case (Call_unsubscribe t' h')
  then show ?thesis using assms
    by (cases "unsubscribe t' h' s") (auto simp: subscribers_unsubscribe set_delete_def)
qed (use assms in \<open>simp_all add: subscribers_def step_handlers del: step.simps\<close>)

lemma calls_step:
  assumes "h \<notin> set (subscribers t s)"
  shows "calls h t (delivered (step e s)) = calls h t (delivered s)"
proof (cases "\<exists>i v. e = Socket_receives i (Parsed v)")
  case False
  then show ?thesis by (simp add: step_delivered)
next
  case True
  then show ?thesis using calls_dispatch[OF assms] by (auto simp: socket_receives_def onmessage_parsed)
qed

lemma calls_run:
  "h \<notin> set (subscribers t s) \<Longrightarrow> Call_subscribe t h \<notin> set es \<Longrightarrow>
   calls h t (delivered (run es s)) = calls h t (delivered s)
   \<and> h \<notin> set (subscribers t (run es s))"
proof (induction es arbitrary: s)
  case Nil
  then show ?case by simp
next
  case (Cons e es)
  then have "h \<notin> set (subscribers t (step e s))" by (intro subscribers_step) auto
  then show ?case using Cons calls_step[of h t s e] by simp
qed

lemma unsubscribe_subscribe:
  "unsubscribe t h (subscribe t h s) = Some ((subscribe t h s)\<lparr>handlers := (handlers s)(t \<mapsto> set_delete h (subscribers t s))\<rparr>)"
  by (auto simp add: unsubscribe_def subscribe_def subscribers_def set_add_def set_delete_def Let_def split: option.splits)

lemma subscribe_twice: "subscribe t h (subscribe t h s) = subscribe t h s"
  by (simp add: subscribe_def set_add_def Let_def)

lemma unsubscribe_twice: "unsubscribe t h s = Some s1 \<Longrightarrow> unsubscribe t h s1 = Some s1"
  by (auto simp: unsubscribe_def set_delete_def split: option.splits)

lemma once: "distinct xs \<Longrightarrow> x \<in> set xs \<Longrightarrow> length (filter (\<lambda>g. g = x) xs) = 1"
  by (induction xs) (auto simp: filter_empty_conv)

lemma subscribe_delivered: "delivered (subscribe t h s) = delivered s"
  by (simp add: subscribe_def Let_def)



lemma without_2_fields:
  "unsubscribe T_presence 2 (subscribe T_presence 2 live_client) = Some without_2"
  "subscribers T_presence without_2 = [1, 3]"
  "delivered without_2 = []"
  "sockets without_2 = sockets live_client"
proof -
  have h: "handlers live_client T_presence = Some [1, 2, 3]"
    by (simp add: live_client_eq base)
  show "unsubscribe T_presence 2 (subscribe T_presence 2 live_client) = Some without_2"
    by (simp add: without_2_def unsubscribe_subscribe)
  show "subscribers T_presence without_2 = [1, 3]"
    by (simp add: without_2_def unsubscribe_subscribe subscribers_def h set_delete_def)
  show "delivered without_2 = []"
    by (simp add: without_2_def unsubscribe_subscribe subscribe_delivered live_client_fields)
  show "sockets without_2 = sockets live_client"
    by (simp add: without_2_def unsubscribe_subscribe) (simp add: subscribe_def Let_def)
qed

text \<open>
  C10. (1) The function returned by \<open>subscribe t h\<close> runs without error and leaves \<open>h\<close>
  out of the subscribers of \<open>t\<close>. (2) From a state in which \<open>h\<close> is not subscribed to \<open>t\<close>,
  whatever happens next short of subscribing \<open>h\<close> to \<open>t\<close> again, \<open>h\<close> is not invoked with
  any further value tagged \<open>t\<close>. (3) After \<open>subscribe t h\<close> twice, a dispatched value
  tagged \<open>t\<close> invokes \<open>h\<close> exactly once. (4) Calling the unsubscribe function a second
  time changes nothing.
\<close>

theorem unsubscribe_ends_delivery:
  "(\<exists>s1. unsubscribe t h (subscribe t h s) = Some s1 \<and> h \<notin> set (subscribers t s1))
   \<and> (h \<notin> set (subscribers t s) \<and> Call_subscribe t h \<notin> set es \<longrightarrow>
        calls h t (delivered (run es s)) = calls h t (delivered s))
   \<and> (distinct (subscribers t s) \<and> type_of_tag (type_key v) = Some t \<longrightarrow>
        length (calls h t (delivered (snd (dispatch v (subscribe t h (subscribe t h s))))))
          = length (calls h t (delivered s)) + 1)
   \<and> (unsubscribe t h s = Some s2 \<longrightarrow> unsubscribe t h s2 = Some s2)"
proof -
  have a: "\<exists>s1. unsubscribe t h (subscribe t h s) = Some s1 \<and> h \<notin> set (subscribers t s1)"
    by (simp add: unsubscribe_subscribe subscribers_def set_delete_def)
  have c: "length (calls h t (delivered (snd (dispatch v (subscribe t h (subscribe t h s))))))
          = length (calls h t (delivered s)) + 1"
    if d: "distinct (subscribers t s)" and tg: "type_of_tag (type_key v) = Some t"
  proof -
    have "distinct (set_add h (subscribers t s))" "h \<in> set (set_add h (subscribers t s))"
      using d by (simp_all add: set_add_def)
    then have "length (filter (\<lambda>g. g = h) (set_add h (subscribers t s))) = 1"
      by (rule once)
    moreover have
      "filter (\<lambda>d. fst d = h \<and> type_of_tag (type_key (snd d)) = Some t) (map (\<lambda>g. (g, v)) xs)
         = map (\<lambda>g. (g, v)) (filter (\<lambda>g. g = h) xs)" for xs
      using tg by (induction xs) auto
    ultimately show ?thesis using tg
      by (simp add: subscribe_twice dispatch_tagged subscribers_subscribe calls_def
                    subscribe_delivered)
  qed
  show ?thesis using a c calls_run[of h t s es] unsubscribe_twice[of t h s s2] by blast
qed

theorem unsubscribe_ends_delivery_witness:
  "2 \<notin> set (subscribers T_presence without_2)
   \<and> Call_subscribe T_presence 2 \<notin> set [Socket_receives 0 (Parsed (Shaped (Presence [])))]
   \<and> delivered (run [Socket_receives 0 (Parsed (Shaped (Presence [])))] without_2)
       = [(1, Shaped (Presence [])), (3, Shaped (Presence []))]
   \<and> calls 2 T_presence (delivered (run [Socket_receives 0 (Parsed (Shaped (Presence [])))] without_2))
       = []
   \<and> distinct (subscribers T_presence live_client)
   \<and> type_of_tag (type_key (Shaped (Presence []))) = Some T_presence
   \<and> length (calls 4 T_presence (delivered (snd (dispatch (Shaped (Presence []))
        (subscribe T_presence 4 (subscribe T_presence 4 live_client)))))) = 1
   \<and> unsubscribe T_presence 2 (subscribe T_presence 2 live_client) = Some without_2
   \<and> unsubscribe T_presence 2 without_2 = Some without_2"
proof -
  let ?m = "Shaped (Presence [])"
  let ?es = "[Socket_receives 0 (Parsed ?m)]"
  have tagged: "type_of_tag (type_key ?m) = Some T_presence"
    by (simp add: type_of_tag_def)
  have gone: "2 \<notin> set (subscribers T_presence without_2)"
    by (simp add: without_2_fields)
  have es: "Call_subscribe T_presence 2 \<notin> set ?es"
    by simp
  have trace: "delivered (run ?es without_2) = [(1, ?m), (3, ?m)]"
    using tagged
    by (simp add: socket_receives_def onmessage_parsed dispatch_tagged without_2_fields
                  live_client_fields)
  have d: "distinct (subscribers T_presence live_client)"
    by (simp add: live_client_fields)
  have u: "unsubscribe T_presence 2 (subscribe T_presence 2 live_client) = Some without_2"
    by (rule without_2_fields)
  have none: "calls 4 T_presence (delivered live_client) = []"
    by (simp add: live_client_fields calls_def)
  show ?thesis
    using unsubscribe_ends_delivery [of T_presence 2 without_2 ?es ?m without_2]
          unsubscribe_ends_delivery [of T_presence 4 live_client "[]" ?m live_client]
          unsubscribe_ends_delivery [of T_presence 2 "subscribe T_presence 2 live_client" "[]" ?m
                                        without_2]
          tagged gone es trace d u none
    by (simp add: calls_def)
qed


section \<open>Nothing handed to send is dropped\<close>

lemma mset_concat_update:
  "i < length xs \<Longrightarrow>
   mset (concat (map f (xs[i := y]))) + mset (f (xs ! i)) = mset (concat (map f xs)) + mset (f y)"
proof (induction xs arbitrary: i)
  case Nil
  then show ?case by simp
next
  case (Cons x xs)
  then show ?case by (cases i) (simp_all add: ac_simps)
qed

lemma concat_update_same:
  "i < length xs \<Longrightarrow> f y = f (xs ! i) \<Longrightarrow> concat (map f (xs[i := y])) = concat (map f xs)"
proof -
  assume "i < length xs" "f y = f (xs ! i)"
  then have "map f (xs[i := y]) = map f xs"
    by (simp add: list_eq_iff_nth_eq nth_list_update)
  then show ?thesis by simp
qed

lemma held_send: "held (send m s) = held s + {#m#}"
proof (cases "isConnected s \<and> \<not> send_raises (sockets s ! the (ws s))")
  case False
  then show ?thesis
    by (auto simp: send_def enqueue_def transmit_def held_def Let_def isConnected_def split: option.splits)
next
  case True
  then obtain i where i: "ws s = Some i" "i < length (sockets s)" "\<not> send_raises (sockets s ! i)"
    by (auto simp: isConnected_def split: option.splits)
  have "mset (concat (map sent ((sockets s)[i := (sockets s ! i)\<lparr>sent := sent (sockets s ! i) @ [m]\<rparr>])))
          + mset (sent (sockets s ! i))
        = mset (concat (map sent (sockets s))) + mset (sent (sockets s ! i) @ [m])"
    using mset_concat_update[OF i(2), of sent] by simp
  then have "mset (concat (map sent ((sockets s)[i := (sockets s ! i)\<lparr>sent := sent (sockets s ! i) @ [m]\<rparr>])))
        = mset (concat (map sent (sockets s))) + {#m#}"
    by simp
  then show ?thesis using True i
    by (simp add: send_def transmit_def held_def Let_def)
qed

lemma held_send_each: "held (send_each ms s) = held s + mset ms"
  by (induction ms arbitrary: s) (simp_all add: held_send)

lemma held_set_readyState: "held (set_readyState i r s) = held s"
proof (cases "i < length (sockets s)")
  case True
  then show ?thesis by (simp add: held_def set_readyState_def concat_update_same)
next
  case False
  then have "length (sockets s) \<le> i" by simp
  then have "(sockets s)[i := x] = sockets s" for x by (rule list_update_beyond)
  then show ?thesis by (simp add: held_def set_readyState_def)
qed

lemma held_openSocket [simp]: "held (snd (openSocket w s)) = held s"
  by (simp add: held_def openSocket_def)

lemma held_plain [simp]:
  "held (stopHeartbeat s) = held s"
  "held (startHeartbeat s) = held s"
  "held (clearReconnect s) = held s"
  "held (scheduleReconnect s) = held s"
  "held (notify ev s) = held s"
  "held (setItem k v s) = held s"
  "held (updatePresence p t s) = held s"
  by (simp_all add: held_def ops Let_def split: option.splits)

lemma held_ws_close [simp]: "held (ws_close i s) = held s"
  by (simp add: ws_close_def held_set_readyState)

lemma held_onopen [simp]: "held (onopen s) = held s"
  by (simp add: onopen_def Let_def held_send_each) (simp add: held_def)

lemma held_resume: "held s \<subseteq># held (resume w s)"
  by (cases w) (simp_all add: held_send split: option.splits)

lemma held_dispatch [simp]: "held (snd (dispatch v s)) = held s"
  by (cases "type_of_tag (type_key v)")
     (simp_all add: dispatch_untagged dispatch_tagged, simp add: held_def)

lemma held_registry [simp]:
  "held (subscribe t h s) = held s"
  "held (on ev h s) = held s"
  "held (off ev h s) = held s"
  by (simp add: held_def subscribe_def Let_def, (cases ev; simp add: held_def)+)

lemma held_unsubscribe: "unsubscribe t h s = Some s' \<Longrightarrow> held s' = held s"
  by (auto simp: unsubscribe_def held_def split: option.splits)

lemma held_ws_update [simp]: "held (s\<lparr>ws := x\<rparr>) = held s"
  by (simp add: held_def)

lemma held_disconnect [simp]: "held (disconnect s) = held s"
  by (simp add: disconnect_def Let_def split: option.splits)

lemma held_connect [simp]: "held (snd (connect room uid e s)) = held s"
  by (auto simp: connect_def Let_def getItem_def held_def setItem_def openSocket_def
           split: sum.splits option.splits)

lemma held_timer: "held (reconnect_timer_fires t s) = held s"
proof -
  define s1 where "s1 = (clearTimeout t s)\<lparr>reconnectTimer := None\<rparr>"
  have a: "held s1 = held s"
    by (simp add: s1_def held_def clearTimeout_def)
  obtain p s2 where o: "openSocket By_timer s1 = (p, s2)"
    by (cases "openSocket By_timer s1")
  then have b: "held s2 = held s1"
    using held_openSocket[of By_timer s1] by simp
  show ?thesis
    using a b o unfolding reconnect_timer_fires_def Let_def s1_def[symmetric]
    by (cases p) simp_all
qed

lemma held_step: "held s \<subseteq># held (step e s)"
proof (cases e)
  case (Socket_opens i)
  then show ?thesis
    using held_resume[of "onopen (set_readyState i OPEN s)" "awaited_by (sockets s ! i)"]
    by (simp add: socket_opens_def held_set_readyState)
next
  case (Env_send_raises i b)
  then show ?thesis by (simp add: held_def concat_update_same)
next
  case (Call_unsubscribe t h)
  then show ?thesis by (cases "unsubscribe t h s") (simp_all add: held_unsubscribe)
qed (simp_all add: held_send held_timer reconnect_def sendCamera_def
      socket_errors_def socket_closes_def onerror_def onclose_def held_set_readyState
      heartbeat_timer_fires_def heartbeat_tick_def onmessage_snd socket_receives_def
      split: option.splits inbound.splits, simp_all add: held_def)

lemma held_run: "held s \<subseteq># held (run es s)"
proof (induction es arbitrary: s)
  case Nil
  then show ?case by simp
next
  case (Cons e es)
  then show ?case using held_step[of s e] subset_mset.order_trans by fastforce
qed



lemma dropped_client_fields:
  "ws dropped_client = Some 0"
  "readyState (sockets dropped_client ! 0) = CLOSED"
  "messageQueue dropped_client = []"
  "timeouts dropped_client = [(2, 1000)]"
  by (simp_all add: dropped_client_eq base)

text \<open>
  C4. \<open>send\<close> hands the message to the socket when the transport is open and the
  socket's \<open>send\<close> does not raise, and appends it to the queue in every other case; either
  way the messages the client answers for (queued, or handed to a socket) grow by exactly
  this one, and no later event, reconnects and flushes included, takes it away again.
\<close>

theorem send_transmits_or_queues:
  "(isConnected s \<and> \<not> send_raises (sockets s ! the (ws s)) \<longrightarrow>
      send m s =
        s\<lparr>sockets := (sockets s)[the (ws s) :=
             (sockets s ! the (ws s))\<lparr>sent := sent (sockets s ! the (ws s)) @ [m]\<rparr>]\<rparr>)
   \<and> (\<not> isConnected s \<or> send_raises (sockets s ! the (ws s)) \<longrightarrow>
        send m s = s\<lparr>messageQueue := messageQueue s @ [m]\<rparr>)
   \<and> held (send m s) = held s + {#m#}
   \<and> m \<in># held (run es (send m s))"
proof -
  have "m \<in># held (send m s)"
    by (simp add: held_send)
  then have later: "m \<in># held (run es (send m s))"
    using held_run[of "send m s" es] by (meson mset_subset_eqD)
  have sent: "isConnected s \<and> \<not> send_raises (sockets s ! the (ws s)) \<longrightarrow>
      send m s =
        s\<lparr>sockets := (sockets s)[the (ws s) :=
             (sockets s ! the (ws s))\<lparr>sent := sent (sockets s ! the (ws s)) @ [m]\<rparr>]\<rparr>"
    by (auto simp: send_def transmit_def isConnected_def Let_def split: option.splits)
  have queued: "\<not> isConnected s \<or> send_raises (sockets s ! the (ws s)) \<longrightarrow>
        send m s = s\<lparr>messageQueue := messageQueue s @ [m]\<rparr>"
    by (auto simp: send_def enqueue_def transmit_def isConnected_def Let_def
             split: option.splits)
  show ?thesis
    using sent queued later held_send[of m s] by blast
qed

theorem send_transmits_or_queues_witness:
  "isConnected live_client \<and> \<not> send_raises (sockets live_client ! the (ws live_client))
   \<and> sent (sockets (send (Select ''Kepler-22b'' ''abc'') live_client) ! 0) =
       [Join (Some ''R1'') (Some demo_user), Select ''Kepler-22b'' ''abc'']
   \<and> \<not> isConnected dropped_client
   \<and> messageQueue (send (Select ''Kepler-22b'' ''abc'') dropped_client) =
       [Select ''Kepler-22b'' ''abc'']
   \<and> Select ''Kepler-22b'' ''abc'' \<in>#
       held (run [Reconnect_timer_fires 2, Socket_opens 1]
              (send (Select ''Kepler-22b'' ''abc'') dropped_client))"
proof -
  have up: "isConnected live_client"
    "\<not> send_raises (sockets live_client ! the (ws live_client))"
    by (simp_all add: isConnected_def live_client_fields)
  have down: "\<not> isConnected dropped_client"
    by (simp add: isConnected_def dropped_client_fields)
  let ?m = "Select ''Kepler-22b'' ''abc''"
  note live = send_transmits_or_queues [of live_client ?m "[]"]
  note lost = send_transmits_or_queues [of dropped_client ?m
                                           "[Reconnect_timer_fires 2, Socket_opens 1]"]
  from live up have "sent (sockets (send ?m live_client) ! 0) =
                       [Join (Some ''R1'') (Some demo_user), ?m]"
    by (simp add: live_client_fields)
  moreover from lost down have "messageQueue (send ?m dropped_client) = [?m]"
    by (simp add: dropped_client_fields)
  moreover from lost have
    "?m \<in># held (run [Reconnect_timer_fires 2, Socket_opens 1] (send ?m dropped_client))"
    by blast
  ultimately show ?thesis
    using up down by blast
qed


section \<open>The projection layer\<close>

lemma map_set_fresh: "k \<notin> fst ` set m \<Longrightarrow> map_set k v m = m @ [(k, v)]"
  by (induction m) auto

lemma rebuild:
  "distinct (map fst (acc @ sel)) \<Longrightarrow>
   foldl (\<lambda>m e. map_set (fst e) (snd e) m) acc sel = acc @ sel"
proof (induction sel arbitrary: acc)
  case Nil
  then show ?case by simp
next
  case (Cons e sel)
  then have "fst e \<notin> fst ` set acc" by auto
  then have "map_set (fst e) (snd e) acc = acc @ [e]" by (simp add: map_set_fresh)
  moreover have "distinct (map fst ((acc @ [e]) @ sel))" using Cons.prems by simp
  ultimately show ?case using Cons.IH[of "acc @ [e]"] by simp
qed

lemma map_get_set: "map_get k' (map_set k v m) = (if k' = k then Some v else map_get k' m)"
  by (induction m) (auto simp: map_get_def)

lemma map_get_delete: "map_get k' (map_delete k m) = (if k' = k then None else map_get k' m)"
  by (induction m) (auto simp: map_get_def map_delete_def)

lemma entry_set: "entry k (map_set k v m) = v"
  by (simp add: entry_def map_get_set)

lemma user_updatePresence_id:
  "user c = Some me \<Longrightarrow> p_id p = None \<Longrightarrow> \<exists>me'. user (updatePresence p t c) = Some me' \<and> id' me' = id' me"
  by (simp add: updatePresence_def spread_def)

text \<open>
  C6. The handler of \<open>selection_state\<close> leaves the local map equal to the entries of the
  message, whatever it held before; the keys of an object are pairwise different.
\<close>

theorem selection_state_replaces_map:
  "distinct (map fst selected) \<Longrightarrow>
   on_selection_state selected p = p\<lparr>selectedPlanets := selected\<rparr>"
  using rebuild[of "[]" selected] by (simp add: on_selection_state_def)

theorem selection_state_replaces_map_witness:
  "distinct (map fst [(''Proxima b'', [''u1'', ''u2'']), (''Tau Ceti e'', [])])
   \<and> selectedPlanets demo_provider = [(''Kepler-22b'', [''u2''])]
   \<and> selectedPlanets
        (on_selection_state [(''Proxima b'', [''u1'', ''u2'']), (''Tau Ceti e'', [])] demo_provider)
       = [(''Proxima b'', [''u1'', ''u2'']), (''Tau Ceti e'', [])]"
proof -
  have d: "distinct (map fst [(''Proxima b'', [''u1'', ''u2'']), (''Tau Ceti e'', [])])"
    by simp
  show ?thesis
    using d selection_state_replaces_map [OF d, of demo_provider]
    by (simp add: demo_provider_def)
qed

text \<open>
  With a client and a current user, \<open>selectPlanet\<close> returns true, appends the user's id to
  the entry of the planet unless it is there already, and records the planet as the
  outstanding attempt. A conflict for an outstanding attempt whose planet id is a
  non-empty string filters the user's id out of the entry, deletes the entry if that
  leaves it empty, and sets \<open>lastConflict\<close> to the planet, the locker and the reason of
  the message.
\<close>

lemma select_then_conflict_rolls_back:
  assumes "clientRef p = Some c" and "user c = Some me"
  shows "fst (selectPlanet pid t p)
    \<and> entry pid (selectedPlanets (snd (selectPlanet pid t p))) =
        (if id' me \<in> set (entry pid (selectedPlanets p)) then entry pid (selectedPlanets p)
         else entry pid (selectedPlanets p) @ [id' me])
    \<and> lastSelectAttemptRef (snd (selectPlanet pid t p)) = Some pid
    \<and> (lastSelectAttemptRef p = Some pid \<and> pid \<noteq> [] \<longrightarrow>
          map_get pid (selectedPlanets (on_conflict pid locker why t p)) =
            (if filter (\<lambda>u. u \<noteq> id' me) (entry pid (selectedPlanets p)) = [] then None
             else Some (filter (\<lambda>u. u \<noteq> id' me) (entry pid (selectedPlanets p))))
          \<and> lastConflict (on_conflict pid locker why t p) =
              Some \<lparr>planetId = pid, lockedBy = locker, reason = why\<rparr>)
    \<and> (pid \<noteq> [] \<longrightarrow>
          id' me \<notin> set (entry pid (selectedPlanets
                         (on_conflict pid locker why t' (snd (selectPlanet pid t p))))))"
proof -
  let ?p1 = "snd (selectPlanet pid t p)"
  have sel: "selectPlanet pid t p =
     (True, p\<lparr>selectedPlanets := map_set pid (if id' me \<in> set (entry pid (selectedPlanets p)) then entry pid (selectedPlanets p) else entry pid (selectedPlanets p) @ [id' me]) (selectedPlanets p),
              lastSelectAttemptRef := Some pid,
              clientRef := Some (send (Select pid (id' me)) (updatePresence (no_keys\<lparr>p_selectedPlanetId := Some (Some pid)\<rparr>) t c))\<rparr>)"
    using assms by (simp add: selectPlanet_def Let_def)
  have conf: "map_get pid (selectedPlanets (on_conflict pid locker why t'' q)) =
            (if filter (\<lambda>u. u \<noteq> id' m) (entry pid (selectedPlanets q)) = [] then None
             else Some (filter (\<lambda>u. u \<noteq> id' m) (entry pid (selectedPlanets q))))
          \<and> lastConflict (on_conflict pid locker why t'' q) =
              Some \<lparr>planetId = pid, lockedBy = locker, reason = why\<rparr>"
    if "clientRef q = Some c'" "user c' = Some m" "lastSelectAttemptRef q = Some pid" "pid \<noteq> []"
    for q c' m t''
    using that by (simp add: on_conflict_def Let_def truthy_def map_get_set map_get_delete)
  obtain me' where me': "user (send (Select pid (id' me)) (updatePresence (no_keys\<lparr>p_selectedPlanetId := Some (Some pid)\<rparr>) t c)) = Some me'" "id' me' = id' me"
    using user_updatePresence_id[OF assms(2), of "no_keys\<lparr>p_selectedPlanetId := Some (Some pid)\<rparr>" t]
    by (auto simp: no_keys_def)
  have roll: "id' me \<notin> set (entry pid (selectedPlanets (on_conflict pid locker why t' ?p1)))" if "pid \<noteq> []"
  proof -
    have "map_get pid (selectedPlanets (on_conflict pid locker why t' ?p1)) =
            (if filter (\<lambda>u. u \<noteq> id' me') (entry pid (selectedPlanets ?p1)) = [] then None
             else Some (filter (\<lambda>u. u \<noteq> id' me') (entry pid (selectedPlanets ?p1))))"
      using conf[of ?p1 _ me' t'] me' that sel by simp
    then show ?thesis using me'(2) by (auto simp: entry_def split: if_splits)
  qed
  show ?thesis
    using sel conf[of p c me t] assms roll by (simp add: entry_set)
qed

lemma select_demo:
  "snd (selectPlanet pid t demo_provider) =
     demo_provider\<lparr>selectedPlanets :=
                     map_set pid (if ''abc'' \<in> set (entry pid [(''Kepler-22b'', [''u2''])])
                                  then entry pid [(''Kepler-22b'', [''u2''])]
                                  else entry pid [(''Kepler-22b'', [''u2''])] @ [''abc''])
                       [(''Kepler-22b'', [''u2''])],
                   lastSelectAttemptRef := Some pid,
                   clientRef := Some (send (Select pid ''abc'')
                      (updatePresence (no_keys\<lparr>p_selectedPlanetId := Some (Some pid)\<rparr>) t
                         live_client))\<rparr>"
  by (simp add: selectPlanet_def demo_provider_def live_client_fields Let_def demo_user_def)

lemma select_then_conflict_demo:
  "fst (selectPlanet ''Kepler-22b'' 7 demo_provider)
   \<and> entry ''Kepler-22b'' (selectedPlanets (snd (selectPlanet ''Kepler-22b'' 7 demo_provider)))
       = [''u2'', ''abc'']
   \<and> lastSelectAttemptRef (snd (selectPlanet ''Kepler-22b'' 7 demo_provider))
       = Some ''Kepler-22b''
   \<and> map_get ''Kepler-22b'' (selectedPlanets
        (on_conflict ''Kepler-22b'' ''u2'' None 8
           (snd (selectPlanet ''Kepler-22b'' 7 demo_provider)))) = Some [''u2'']
   \<and> lastConflict (on_conflict ''Kepler-22b'' ''u2'' None 8
                     (snd (selectPlanet ''Kepler-22b'' 7 demo_provider)))
       = Some \<lparr>planetId = ''Kepler-22b'', lockedBy = ''u2'', reason = None\<rparr>
   \<and> map_get ''Kepler-22b'' (selectedPlanets
        (on_conflict ''Kepler-22b'' ''abc'' None 8
           (on_selection_state [(''Kepler-22b'', [''abc''])]
              (snd (selectPlanet ''Kepler-22b'' 7 demo_provider))))) = None"
proof -
  have t: "fst (selectPlanet ''Kepler-22b'' 7 demo_provider)"
    by (simp add: selectPlanet_def demo_provider_def live_client_fields Let_def)
  have u: "user (updatePresence (no_keys\<lparr>p_selectedPlanetId := Some (Some ''Kepler-22b'')\<rparr>) 7
                   live_client)
             = Some (demo_user\<lparr>selectedPlanetId := Some ''Kepler-22b'', lastSeen := 7\<rparr>)"
    by (simp add: updatePresence_def spread_def no_keys_def live_client_fields)
  show ?thesis
    using t
    by (simp add: select_demo u on_conflict_def on_selection_state_def truthy_def entry_def
                  map_get_def map_delete_def demo_user_def Let_def)
qed

text \<open>
  C2 at its failing input, the empty planet id. \<open>selectPlanet\<close> adds the user to the entry
  of that id and records the id as the outstanding attempt. The conflict for the same id
  that follows is dropped, because the handler tests the recorded attempt for truthiness:
  the user stays in the entry and \<open>lastConflict\<close> stays empty. \<open>unselectPlanet\<close>, with the
  same filter and delete, takes the empty id as a key like any other and removes the
  entry.
\<close>

theorem conflict_for_empty_planet_id_is_ignored:
  "fst (selectPlanet [] 7 demo_provider)
   \<and> lastSelectAttemptRef (snd (selectPlanet [] 7 demo_provider)) = Some []
   \<and> map_get [] (selectedPlanets (snd (selectPlanet [] 7 demo_provider))) = Some [''abc'']
   \<and> map_get [] (selectedPlanets
        (on_conflict [] ''u2'' None 8 (snd (selectPlanet [] 7 demo_provider)))) = Some [''abc'']
   \<and> lastConflict (on_conflict [] ''u2'' None 8 (snd (selectPlanet [] 7 demo_provider))) = None
   \<and> map_get [] (selectedPlanets
        (unselectPlanet [] 8 (snd (selectPlanet [] 7 demo_provider)))) = None"
proof -
  have none: "lastConflict demo_provider = None"
    by (simp add: demo_provider_def)
  have t: "fst (selectPlanet [] 7 demo_provider)"
    by (simp add: selectPlanet_def demo_provider_def live_client_fields Let_def)
  have u: "user (updatePresence (no_keys\<lparr>p_selectedPlanetId := Some (Some [])\<rparr>) 7 live_client)
             = Some (demo_user\<lparr>selectedPlanetId := Some [], lastSeen := 7\<rparr>)"
    by (simp add: updatePresence_def spread_def no_keys_def live_client_fields)
  have kept: "lastSelectAttemptRef (snd (selectPlanet [] 7 demo_provider)) = Some []
     \<and> map_get [] (selectedPlanets (snd (selectPlanet [] 7 demo_provider))) = Some [''abc'']
     \<and> map_get [] (selectedPlanets
          (on_conflict [] ''u2'' None 8 (snd (selectPlanet [] 7 demo_provider)))) = Some [''abc'']
     \<and> lastConflict (on_conflict [] ''u2'' None 8 (snd (selectPlanet [] 7 demo_provider))) = None"
    by (simp add: select_demo on_conflict_def truthy_def entry_def map_get_def none
             split: option.splits)
  have sibling: "map_get [] (selectedPlanets
        (unselectPlanet [] 8 (snd (selectPlanet [] 7 demo_provider)))) = None"
    by (simp add: select_demo u unselectPlanet_def entry_def map_get_def map_delete_def
                  demo_user_def Let_def)
  show ?thesis
    using t kept sibling by simp
qed

section \<open>Reconnecting with backoff\<close>

lemma scheduleReconnect_idle:
  assumes "reconnectTimer s = None" "timeouts s = []" "next_timer s \<noteq> 0"
  shows "timeouts (scheduleReconnect s) = [(next_timer s, backoff (reconnectAttempts s))]"
    "reconnectTimer (scheduleReconnect s) = Some (next_timer s)"
    "reconnectAttempts (scheduleReconnect s) = Suc (reconnectAttempts s)"
    "scheduled (scheduleReconnect s) = scheduled s @ [backoff (reconnectAttempts s)]"
    "next_timer (scheduleReconnect s) = Suc (next_timer s)"
    "roomId (scheduleReconnect s) = roomId s"
  using assms by (simp_all add: scheduleReconnect_def Let_def truthy_handle_def setTimeout_def)

lemma retry_fails_waiting:
  assumes "waiting n s"
  shows "waiting (Suc n) (retry_fails f s)"
proof -
  obtain t where t: "t \<noteq> 0" "timeouts s = [(t, backoff n)]" "reconnectTimer s = Some t"
    using assms by (auto simp: waiting_def)
  obtain y where y: "truthy (roomId s) = Some y"
    using assms by (auto simp: waiting_def)
  have r: "reconnectAttempts s = Suc n"
     "scheduled s = map backoff [0..<Suc n]" "next_timer s \<noteq> 0"
    using assms by (auto simp: waiting_def)
  show ?thesis
  proof (cases f)
    case Raised
    let ?s1 = "(clearTimeout t (s\<lparr>ctor_raises := True\<rparr>))\<lparr>reconnectTimer := None\<rparr>"
    have fire: "retry_fails Raised s = scheduleReconnect ?s1"
      using t r y by (simp add: retry_fails_def reconnect_timer_fires_def Let_def openSocket_def clearTimeout_def)
    have idle: "reconnectTimer ?s1 = None" "timeouts ?s1 = []" "next_timer ?s1 \<noteq> 0"
      using t r by (simp_all add: clearTimeout_def)
    show ?thesis
      unfolding Raised fire waiting_def
      using scheduleReconnect_idle[OF idle] r t y
      by (simp add: clearTimeout_def)
  next
    case Refused
    let ?s1 = "(clearTimeout t (s\<lparr>ctor_raises := False\<rparr>))\<lparr>reconnectTimer := None\<rparr>"
    let ?k = "length (sockets s)"
    let ?s2 = "?s1\<lparr>sockets := sockets s @ [\<lparr>readyState = CONNECTING, sent = [], send_raises = False, awaited_by = By_timer\<rparr>], ws := Some ?k\<rparr>"
    let ?s3 = "notify Disconnected (set_readyState ?k CLOSED (notify Errored ?s2))"
    have fire: "retry_fails Refused s = scheduleReconnect ?s3"
      using t r y
      by (simp add: retry_fails_def reconnect_timer_fires_def Let_def openSocket_def clearTimeout_def
            attempt_refused_def socket_errors_def socket_closes_def onerror_def onclose_def notify_trace
            set_readyState_def nth_append)
    have idle: "reconnectTimer ?s3 = None" "timeouts ?s3 = []" "next_timer ?s3 \<noteq> 0"
      using t r by (simp_all add: clearTimeout_def notify_trace set_readyState_def)
    show ?thesis
      unfolding Refused fire waiting_def
      using scheduleReconnect_idle[OF idle] r t y
      by (simp add: clearTimeout_def notify_trace set_readyState_def)
  qed
qed

lemma retries_waiting: "waiting n s \<Longrightarrow> waiting (n + length fs) (retries fs s)"
proof (induction fs arbitrary: n s)
  case Nil
  then show ?case by simp
next
  case (Cons f fs)
  then show ?case using retry_fails_waiting[of n s f] by fastforce
qed

lemma first_failure_waiting:
  assumes "room \<noteq> []"
  shows "waiting 0 (attempt_refused (snd (connect room uid e (new_client r0 st))))"
proof -
  have g: "\<not> getItem_raises (new_client r0 st)"
    by (simp add: new_client_def)
  show ?thesis
    unfolding connect_result[OF g] using assms
    by (simp add: waiting_def attempt_refused_def Let_def openSocket_def setItem_def
          new_client_def socket_errors_def socket_closes_def onerror_def onclose_def notify_trace
          set_readyState_def scheduleReconnect_def stopHeartbeat_def truthy_handle_def
          setTimeout_def truthy_def)
qed


lemma one_timer_cong:
  "timeouts s' = timeouts s \<Longrightarrow> reconnectTimer s' = reconnectTimer s \<Longrightarrow>
   next_timer s' = next_timer s \<Longrightarrow> one_timer s' = one_timer s"
  by (simp add: one_timer_def)

lemma one_timer_stopHeartbeat [simp]: "one_timer (stopHeartbeat s) = one_timer s"
  by (rule one_timer_cong) simp_all

lemma one_timer_startHeartbeat: "one_timer s \<Longrightarrow> one_timer (startHeartbeat s)"
  by (simp add: one_timer_def startHeartbeat_def setInterval_def stopHeartbeat_def clearInterval_def
           split: option.splits)

lemma one_timer_scheduleReconnect: "one_timer s \<Longrightarrow> one_timer (scheduleReconnect s)"
  by (auto simp: one_timer_def scheduleReconnect_def Let_def truthy_handle_def setTimeout_def
           split: option.splits)

lemma one_timer_clearReconnect: "one_timer s \<Longrightarrow> one_timer (clearReconnect s)"
  by (auto simp: one_timer_def clearReconnect_def Let_def truthy_handle_def clearTimeout_def
           split: option.splits)

lemma one_timer_send [simp]: "one_timer (send m s) = one_timer s"
  by (rule one_timer_cong) simp_all

lemma one_timer_notify [simp]: "one_timer (notify ev s) = one_timer s"
  by (rule one_timer_cong) (simp_all add: notify_trace)

lemma one_timer_onopen [simp]: "one_timer (onopen s) = one_timer s"
  by (rule one_timer_cong) (simp_all add: onopen_def Let_def notify_trace)

lemma one_timer_set_readyState [simp]: "one_timer (set_readyState i r s) = one_timer s"
  by (rule one_timer_cong) (simp_all add: set_readyState_def)

lemma one_timer_resume: "one_timer s \<Longrightarrow> one_timer (resume w s)"
  by (cases w) (auto simp: one_timer_startHeartbeat split: option.splits)

lemma one_timer_openSocket [simp]: "one_timer (snd (openSocket w s)) = one_timer s"
  by (rule one_timer_cong) (simp_all add: openSocket_def)

lemma one_timer_fires: "one_timer s \<Longrightarrow> one_timer (reconnect_timer_fires t s)"
proof -
  assume j: "one_timer s"
  define s1 where "s1 = (clearTimeout t s)\<lparr>reconnectTimer := None\<rparr>"
  have a: "t \<in> fst ` set (timeouts s) \<Longrightarrow> one_timer s1"
    using j by (auto simp: s1_def one_timer_def clearTimeout_def split: option.splits)
  obtain p s2 where o: "openSocket By_timer s1 = (p, s2)"
    by (cases "openSocket By_timer s1")
  then have b: "one_timer s2 = one_timer s1"
    using one_timer_openSocket[of By_timer s1] by simp
  show ?thesis
    using j a b o unfolding reconnect_timer_fires_def Let_def s1_def[symmetric]
    by (cases p) (auto simp: one_timer_scheduleReconnect)
qed

lemma one_timer_connect: "one_timer s \<Longrightarrow> one_timer (snd (connect room uid e s))"
  by (auto simp: connect_def Let_def getItem_def one_timer_def setItem_def openSocket_def
           split: sum.splits option.splits)

lemma one_timer_disconnect: "one_timer s \<Longrightarrow> one_timer (disconnect s)"
proof -
  assume "one_timer s"
  then have "one_timer ((case ws (stopHeartbeat s) of None \<Rightarrow> stopHeartbeat s | Some i \<Rightarrow> ws_close i (stopHeartbeat s))\<lparr>ws := None\<rparr>)"
    by (auto simp: one_timer_def ws_close_def set_readyState_def split: option.splits)
  then show ?thesis unfolding disconnect_def Let_def by (rule one_timer_clearReconnect)
qed

lemma one_timer_step: "one_timer s \<Longrightarrow> one_timer (step e s)"
proof (cases e)
  case (Call_unsubscribe t h)
  assume "one_timer s"
  then show ?thesis using Call_unsubscribe
    by (cases "unsubscribe t h s") (auto simp: unsubscribe_def one_timer_def split: option.splits)
next
  case (Call_on ev h)
  assume "one_timer s"
  then show ?thesis using Call_on by (cases ev) (simp_all add: one_timer_def)
next
  case (Call_off ev h)
  assume "one_timer s"
  then show ?thesis using Call_off by (cases ev) (simp_all add: one_timer_def)
next
  case (Socket_receives i d)
  assume "one_timer s"
  moreover have "one_timer (snd (dispatch v s)) = one_timer s" for v
    by (cases "type_of_tag (type_key v)")
       (simp_all add: dispatch_untagged dispatch_tagged, simp add: one_timer_def)
  ultimately show ?thesis using Socket_receives
    by (simp add: socket_receives_def onmessage_snd split: inbound.splits)
qed (simp_all add: one_timer_connect one_timer_disconnect one_timer_fires one_timer_resume
       one_timer_scheduleReconnect reconnect_def sendCamera_def socket_opens_def socket_errors_def
       socket_closes_def onerror_def onclose_def heartbeat_timer_fires_def heartbeat_tick_def
       split: option.splits, simp_all add: one_timer_def updatePresence_def subscribe_def Let_def split: option.splits)

lemma one_timer_run: "one_timer s \<Longrightarrow> one_timer (run es s)"
  by (induction es arbitrary: s) (simp_all add: one_timer_step)

lemma one_timer_new: "one_timer (new_client r0 st)"
  by (simp add: one_timer_def new_client_def)

lemma one_timer_length: "one_timer s \<Longrightarrow> length (timeouts s) \<le> 1"
  by (auto simp: one_timer_def split: option.splits)


lemma resume_attempts [simp]: "reconnectAttempts (resume w s) = reconnectAttempts s"
  by (cases w) (simp_all split: option.splits)

lemma open_after_waiting:
  assumes "waiting n s" and "timeouts s = [(t, d)]"
  shows "reconnectAttempts
           (socket_opens (length (sockets s)) (reconnect_timer_fires t (s\<lparr>ctor_raises := False\<rparr>)))
         = 0"
proof -
  obtain y where y: "truthy (roomId s) = Some y"
    using assms by (auto simp: waiting_def)
  let ?k = "length (sockets s)"
  let ?s1 = "(clearTimeout t (s\<lparr>ctor_raises := False\<rparr>))\<lparr>reconnectTimer := None,
     sockets := sockets s @ [\<lparr>readyState = CONNECTING, sent = [], send_raises = False,
                             awaited_by = By_timer\<rparr>],
     ws := Some ?k\<rparr>"
  have fire: "reconnect_timer_fires t (s\<lparr>ctor_raises := False\<rparr>) = ?s1"
    using assms(2) y by (simp add: reconnect_timer_fires_def Let_def openSocket_def clearTimeout_def)
  show ?thesis
    unfolding fire
    by (simp add: socket_opens_def onopen_def Let_def notify_trace set_readyState_def nth_append)
qed

text \<open>
  C1. Start from a freshly constructed client, call \<open>connect\<close> with a non-empty room,
  let the first attempt be refused and let each retry fail, in either way. After \<open>N\<close>
  failures in all (\<open>N\<close> is one more than the number of failed retries) the delays passed to
  \<open>setTimeout\<close> so far are \<open>min (1000 * 2 ^ k) 15000\<close> for \<open>k = 0, ..., N - 1\<close>, in this
  order; exactly one timer is pending, it is the one in \<open>reconnectTimer\<close> and its delay is
  the last of these; the attempt counter is \<open>N\<close>, and the opening of the next attempt's
  socket sets it back to 0. In every run of the client whatsoever, at most one reconnect
  timer is pending at any time.
\<close>

theorem reconnect_backoff:
  assumes "room \<noteq> []"
      and "s = retries fs (attempt_refused (snd (connect room uid e (new_client r0 st))))"
  shows "scheduled s = map (\<lambda>k. min (1000 * 2 ^ k) 15000) [0..<Suc (length fs)]
       \<and> reconnectAttempts s = Suc (length fs)
       \<and> (\<exists>t. timeouts s = [(t, min (1000 * 2 ^ length fs) 15000)] \<and> reconnectTimer s = Some t
              \<and> reconnectAttempts
                   (socket_opens (length (sockets s))
                      (reconnect_timer_fires t (s\<lparr>ctor_raises := False\<rparr>))) = 0)
       \<and> (\<forall>es. length (timeouts (run es (new_client r0 st))) \<le> 1)"
proof -
  have w: "waiting (length fs) s"
    using retries_waiting[OF first_failure_waiting[OF assms(1)], of fs uid e r0 st] assms(2)
    by simp
  have b: "backoff = (\<lambda>k. min (1000 * 2 ^ k) 15000)"
    by (rule ext) (simp add: backoff_def RECONNECT_BASE_DELAY_MS_def RECONNECT_MAX_DELAY_MS_def)
  obtain t where t: "timeouts s = [(t, backoff (length fs))]" "reconnectTimer s = Some t"
    using w by (auto simp: waiting_def)
  have reset: "reconnectAttempts
                 (socket_opens (length (sockets s))
                    (reconnect_timer_fires t (s\<lparr>ctor_raises := False\<rparr>))) = 0"
    using open_after_waiting[OF w t(1)] .
  have one: "length (timeouts (run es (new_client r0 st))) \<le> 1" for es
    using one_timer_length[OF one_timer_run[OF one_timer_new]] .
  have "scheduled s = map backoff [0..<Suc (length fs)]" "reconnectAttempts s = Suc (length fs)"
    using w by (auto simp: waiting_def)
  then show ?thesis
    using t reset one unfolding b by blast
qed

theorem reconnect_backoff_witness:
  "''R1'' \<noteq> []
   \<and> scheduled (retries [Refused, Raised, Refused, Refused]
        (attempt_refused (snd (connect ''R1'' None demo_env (new_client None Map.empty)))))
       = [1000, 2000, 4000, 8000, 15000]
   \<and> reconnectAttempts (retries [Refused, Raised, Refused, Refused]
        (attempt_refused (snd (connect ''R1'' None demo_env (new_client None Map.empty))))) = 5
   \<and> (\<exists>t. timeouts (retries [Refused, Raised, Refused, Refused]
        (attempt_refused (snd (connect ''R1'' None demo_env (new_client None Map.empty)))))
         = [(t, 15000)])"
proof -
  have room: "''R1'' \<noteq> []"
    by simp
  have upt: "[0..<5] = [0, 1, 2, 3, 4::nat]"
    by (simp add: upt_rec)
  show ?thesis
    using reconnect_backoff [OF room refl, of "[Refused, Raised, Refused, Refused]" None demo_env
                                None Map.empty]
    by (auto simp: upt)
qed


section \<open>Identity across connect and reconnect\<close>

lemma flush_open:
  assumes "ws s = Some k" "k < length (sockets s)" "readyState (sockets s ! k) = OPEN"
    "\<not> send_raises (sockets s ! k)"
  shows "send_each ms s = s\<lparr>sockets := (sockets s)[k := (sockets s ! k)\<lparr>sent := sent (sockets s ! k) @ ms\<rparr>]\<rparr>"
  using assms
proof (induction ms arbitrary: s)
  case Nil
  then show ?case by simp
next
  case (Cons m ms)
  let ?s1 = "s\<lparr>sockets := (sockets s)[k := (sockets s ! k)\<lparr>sent := sent (sockets s ! k) @ [m]\<rparr>]\<rparr>"
  have one: "send m s = ?s1"
    using Cons.prems by (simp add: send_def isConnected_def transmit_def Let_def)
  have "send_each ms ?s1 = ?s1\<lparr>sockets := (sockets ?s1)[k := (sockets ?s1 ! k)\<lparr>sent := sent (sockets ?s1 ! k) @ ms\<rparr>]\<rparr>"
    using Cons.prems by (intro Cons.IH) simp_all
  then show ?case using Cons.prems by (simp add: one)
qed

lemma opens_after_attempt:
  assumes "ws s = Some k" "k = length old"
    "sockets s = old @ [\<lparr>readyState = CONNECTING, sent = [], send_raises = False, awaited_by = w\<rparr>]"
    "user s = Some u"
    "w = By_connect room \<and> r = Some room \<or> w = By_timer \<and> r = roomId s \<and> truthy (roomId s) \<noteq> None"
  shows "sent (sockets (socket_opens k s) ! k) = messageQueue s @ [Join r (Some u)]"
proof -
  let ?s1 = "(set_readyState k OPEN s)\<lparr>reconnectAttempts := 0, messageQueue := []\<rparr>"
  have c: "ws ?s1 = Some k" "k < length (sockets ?s1)" "readyState (sockets ?s1 ! k) = OPEN"
    "\<not> send_raises (sockets ?s1 ! k)"
    using assms by (simp_all add: set_readyState_def)
  have o: "onopen (set_readyState k OPEN s) = notify Connected (send_each (messageQueue s) ?s1)"
    by (simp add: onopen_def Let_def set_readyState_def)
  let ?s2 = "notify Connected (send_each (messageQueue s) ?s1)"
  have f: "sockets ?s2 = old @ [\<lparr>readyState = OPEN, sent = messageQueue s, send_raises = False, awaited_by = w\<rparr>]"
    "ws ?s2 = Some k" "user ?s2 = Some u" "roomId ?s2 = roomId s"
    unfolding flush_open[OF c] using assms by (simp_all add: notify_trace set_readyState_def)
  have "sent (sockets (resume w ?s2) ! k) = messageQueue s @ [Join r (Some u)]"
    using assms(2,5) f
    by (auto simp: send_def isConnected_def transmit_def Let_def)
  moreover have g: "k < length (sockets s) \<and> readyState (sockets s ! k) = CONNECTING"
    "awaited_by (sockets s ! k) = w"
    using assms by simp_all
  ultimately show ?thesis
    by (simp add: socket_opens_def o)
qed


lemma identity_cong:
  "roomId s' = roomId s \<Longrightarrow> user s' = user s \<Longrightarrow> identity i room s' = identity i room s"
  by (simp add: identity_def)

lemma resume_identity [simp]: "roomId (resume w s) = roomId s" "user (resume w s) = user s"
  by (cases w; simp split: option.splits)+

lemma dispatch_identity [simp]:
  "roomId (snd (dispatch v s)) = roomId s" "user (snd (dispatch v s)) = user s"
  by (cases "type_of_tag (type_key v)"; simp add: dispatch_untagged dispatch_tagged)+

lemma on_off_identity [simp]:
  "roomId (on ev h s) = roomId s" "user (on ev h s) = user s"
  "roomId (off ev h s) = roomId s" "user (off ev h s) = user s"
  by (cases ev; simp)+

lemma step_identity:
  assumes "keeps_identity e" "identity i room s"
  shows "identity i room (step e s)"
proof (cases e)
  case (Call_connect r uid en)
  then show ?thesis using assms by simp
next
  case (Call_updatePresence p t)
  then show ?thesis using assms by (auto simp: identity_def updatePresence_def spread_def)
qed (use assms in \<open>auto simp: identity_def ops Let_def
       split: option.splits prod.splits promise.splits inbound.splits\<close>)

lemma run_identity:
  "\<forall>e \<in> set es. keeps_identity e \<Longrightarrow> identity i room s \<Longrightarrow> identity i room (run es s)"
  by (induction es arbitrary: s) (simp_all add: step_identity)


lemma storage_frame [simp]:
  "storage (resume w s) = storage s"
  "storage (snd (dispatch v s)) = storage s"
  "storage (on ev h s) = storage s"
  "storage (off ev h s) = storage s"
proof -
  show "storage (resume w s) = storage s" by (cases w; simp split: option.splits)
  show "storage (snd (dispatch v s)) = storage s"
    by (cases "type_of_tag (type_key v)"; simp add: dispatch_untagged dispatch_tagged)
  show "storage (on ev h s) = storage s" by (cases ev; simp)
  show "storage (off ev h s) = storage s" by (cases ev; simp)
qed

lemma step_storage: "keeps_identity e \<Longrightarrow> storage (step e s) = storage s"
  by (cases e) (auto simp: ops Let_def
       split: option.splits prod.splits promise.splits inbound.splits)

lemma run_storage: "\<forall>e \<in> set es. keeps_identity e \<Longrightarrow> storage (run es s) = storage s"
  by (induction es arbitrary: s) (simp_all add: step_storage)

lemma rejoin:
  assumes "identity i room s" "room \<noteq> []" "t \<in> fst ` set (timeouts s)" "\<not> ctor_raises s"
  shows "\<exists>u. id' u = i \<and>
           sent (sockets (socket_opens (length (sockets s)) (reconnect_timer_fires t s)) ! length (sockets s))
             = messageQueue s @ [Join (Some room) (Some u)]"
proof -
  obtain u where u: "user s = Some u" "id' u = i" and r: "roomId s = Some room"
    using assms(1) by (auto simp: identity_def)
  let ?k = "length (sockets s)"
  let ?s1 = "(clearTimeout t s)\<lparr>reconnectTimer := None,
     sockets := sockets s @ [\<lparr>readyState = CONNECTING, sent = [], send_raises = False,
                             awaited_by = By_timer\<rparr>],
     ws := Some ?k\<rparr>"
  have fire: "reconnect_timer_fires t s = ?s1"
    using assms r by (simp add: reconnect_timer_fires_def Let_def openSocket_def clearTimeout_def truthy_def)
  have "sent (sockets (socket_opens ?k ?s1) ! ?k) = messageQueue ?s1 @ [Join (roomId ?s1) (Some u)]"
    using u r assms(2)
    by (intro opens_after_attempt[where old = "sockets s" and w = By_timer and room = room])
       (simp_all add: clearTimeout_def truthy_def)
  then show ?thesis using u r by (auto simp: fire clearTimeout_def)
qed

lemma connect_user_times:
  assumes "\<not> getItem_raises s"
  shows "\<exists>u. user (snd (connect room userId e s)) = Some u \<and> joinedAt u = now e
    \<and> lastSeen u = now e \<and> selectedPlanetId u = None \<and> isViewingPlanet u = None"
  by (simp add: connect_result[OF assms] Let_def openSocket_def)

text \<open>
  C9, as the code has it. Let \<open>getItem\<close> not raise. Then \<open>connect room userId\<close> makes a
  user whose id is the argument if that is a non-empty string, else the stored
  \<open>exo-user-id\<close> if that is a non-empty string, else the random UUID when the platform
  gives one, else \<open>u_\<close>, a random string, \<open>_\<close> and the clock in decimal; its name and color
  are the stored ones if non-empty, else generated. Unless \<open>setItem\<close> raises, id, name
  and color are stored under their three keys. Unless the constructor raises, a socket
  is created and awaited, and when it opens the queued messages and then a join for the
  room with that user are handed to it. After any run that has neither a new \<open>connect\<close>
  nor an \<open>updatePresence\<close> carrying an id, when a pending reconnect timer expires and the
  socket it creates opens, the join handed to that socket is for the same room and a
  user with the same id, which is still the stored one.
\<close>

theorem connect_identity_and_rejoin:
  assumes "connect room userId e s = (p, s')" and "\<not> getItem_raises s"
  shows "\<exists>u. user s' = Some u
    \<and> (\<forall>a. userId = Some a \<and> a \<noteq> [] \<longrightarrow> id' u = a)
    \<and> (userId = None \<or> userId = Some [] \<longrightarrow>
          (\<forall>b. storage s ''exo-user-id'' = Some b \<and> b \<noteq> [] \<longrightarrow> id' u = b)
          \<and> (storage s ''exo-user-id'' = None \<or> storage s ''exo-user-id'' = Some [] \<longrightarrow>
                (\<forall>v. randomUUID e = Some v \<longrightarrow> id' u = v)
                \<and> (randomUUID e = None \<longrightarrow>
                      id' u = ''u_'' @ random36 e @ ''_'' @ string_of_nat (id_now e))))
    \<and> (\<forall>b. storage s ''exo-user-name'' = Some b \<and> b \<noteq> [] \<longrightarrow> name u = b)
    \<and> (storage s ''exo-user-name'' = None \<or> storage s ''exo-user-name'' = Some [] \<longrightarrow>
          name u = generateDisplayName e)
    \<and> (\<forall>b. storage s ''exo-user-color'' = Some b \<and> b \<noteq> [] \<longrightarrow> color u = b)
    \<and> (storage s ''exo-user-color'' = None \<or> storage s ''exo-user-color'' = Some [] \<longrightarrow>
          color u = generateColor e)
    \<and> (\<not> storage_raises s \<longrightarrow>
          storage s' ''exo-user-id'' = Some (id' u) \<and> storage s' ''exo-user-name'' = Some (name u)
          \<and> storage s' ''exo-user-color'' = Some (color u))
    \<and> (\<not> ctor_raises s \<longrightarrow>
          p = Pending \<and> ws s' = Some (length (sockets s))
          \<and> readyState (sockets s' ! length (sockets s)) = CONNECTING
          \<and> sent (sockets (socket_opens (length (sockets s)) s') ! length (sockets s))
              = messageQueue s @ [Join (Some room) (Some u)])
    \<and> (\<forall>es t. room \<noteq> [] \<and> (\<forall>ev \<in> set es. keeps_identity ev)
               \<and> t \<in> fst ` set (timeouts (run es s')) \<and> \<not> ctor_raises (run es s') \<longrightarrow>
          (\<exists>u'. id' u' = id' u
             \<and> sent (sockets (socket_opens (length (sockets (run es s')))
                                (reconnect_timer_fires t (run es s')))
                     ! length (sockets (run es s')))
                 = messageQueue (run es s') @ [Join (Some room) (Some u')])
          \<and> (\<not> storage_raises s \<longrightarrow> storage (run es s') ''exo-user-id'' = Some (id' u)))"
proof -
  define i where "i = (case truthy userId of
                         Some a \<Rightarrow> a
                       | None \<Rightarrow> or_else (storage s ''exo-user-id'') (generateId e))"
  define s2 where "s2 = setItem ''exo-user-id'' i (s\<lparr>roomId := Some room\<rparr>)"
  define n where "n = or_else (storage s2 ''exo-user-name'') (generateDisplayName e)"
  define c where "c = or_else (storage s2 ''exo-user-color'') (generateColor e)"
  define u where "u = \<lparr>id' = i, name = n, color = c, joinedAt = now e, lastSeen = now e,
                              selectedPlanetId = None, isViewingPlanet = None\<rparr>"
  define s5 where
    "s5 = (setItem ''exo-user-color'' c (setItem ''exo-user-name'' n s2))\<lparr>user := Some u\<rparr>"
  have con: "openSocket (By_connect room) s5 = (p, s')"
    using assms(1) unfolding connect_result[OF assms(2)] Let_def s5_def u_def c_def n_def s2_def i_def
    by simp
  have s5: "user s5 = Some u" "roomId s5 = Some room" "sockets s5 = sockets s"
    "messageQueue s5 = messageQueue s" "ctor_raises s5 = ctor_raises s"
    "\<not> storage_raises s \<Longrightarrow> storage s5 ''exo-user-id'' = Some i"
    "\<not> storage_raises s \<Longrightarrow> storage s5 ''exo-user-name'' = Some n"
    "\<not> storage_raises s \<Longrightarrow> storage s5 ''exo-user-color'' = Some c"
    by (simp_all add: s5_def s2_def setItem_def)
  have s': "user s' = Some u" "roomId s' = Some room" "storage s' = storage s5"
    using con s5(1,2,5) by (auto simp: openSocket_def split: if_splits)
  have arg: "id' u = a" if "userId = Some a" "a \<noteq> []" for a
    using that by (simp add: u_def i_def truthy_def)
  have kept: "id' u = b"
    if "userId = None \<or> userId = Some []" "storage s ''exo-user-id'' = Some b" "b \<noteq> []" for b
    using that by (auto simp: u_def i_def truthy_def or_else_def)
  have uuid: "id' u = v"
    if "userId = None \<or> userId = Some []"
       "storage s ''exo-user-id'' = None \<or> storage s ''exo-user-id'' = Some []"
       "randomUUID e = Some v" for v
    using that by (auto simp: u_def i_def truthy_def or_else_def generateId_def)
  have fallback: "id' u = ''u_'' @ random36 e @ ''_'' @ string_of_nat (id_now e)"
    if "userId = None \<or> userId = Some []"
       "storage s ''exo-user-id'' = None \<or> storage s ''exo-user-id'' = Some []"
       "randomUUID e = None"
    using that by (auto simp: u_def i_def truthy_def or_else_def generateId_def)
  have keys: "storage s2 ''exo-user-name'' = storage s ''exo-user-name''"
    "storage s2 ''exo-user-color'' = storage s ''exo-user-color''"
    by (simp_all add: s2_def setItem_def)
  have nm: "name u = b" if "storage s ''exo-user-name'' = Some b" "b \<noteq> []" for b
    using that by (simp add: u_def n_def keys truthy_def or_else_def)
  have nm': "name u = generateDisplayName e"
    if "storage s ''exo-user-name'' = None \<or> storage s ''exo-user-name'' = Some []"
    using that by (auto simp: u_def n_def keys truthy_def or_else_def)
  have cl: "color u = b" if "storage s ''exo-user-color'' = Some b" "b \<noteq> []" for b
    using that by (simp add: u_def c_def keys truthy_def or_else_def)
  have cl': "color u = generateColor e"
    if "storage s ''exo-user-color'' = None \<or> storage s ''exo-user-color'' = Some []"
    using that by (auto simp: u_def c_def keys truthy_def or_else_def)
  have b: "storage s' ''exo-user-id'' = Some (id' u) \<and> storage s' ''exo-user-name'' = Some (name u)
          \<and> storage s' ''exo-user-color'' = Some (color u)" if "\<not> storage_raises s"
    using that s5 s' by (simp add: u_def)
  have d: "p = Pending \<and> ws s' = Some (length (sockets s))
          \<and> readyState (sockets s' ! length (sockets s)) = CONNECTING
          \<and> sent (sockets (socket_opens (length (sockets s)) s') ! length (sockets s))
              = messageQueue s @ [Join (Some room) (Some u)]" if nr: "\<not> ctor_raises s"
  proof -
    have o: "p = Pending" "s' = s5\<lparr>sockets := sockets s @ [\<lparr>readyState = CONNECTING, sent = [],
              send_raises = False, awaited_by = By_connect room\<rparr>], ws := Some (length (sockets s))\<rparr>"
      using con nr by (auto simp: openSocket_def s5)
    have "sent (sockets (socket_opens (length (sockets s)) s') ! length (sockets s))
              = messageQueue s' @ [Join (Some room) (Some u)]"
      by (intro opens_after_attempt[where old = "sockets s" and w = "By_connect room" and room = room])
         (simp_all add: o s5)
    then show ?thesis using o by (simp add: s5)
  qed
  have f: "(\<exists>u'. id' u' = id' u
             \<and> sent (sockets (socket_opens (length (sockets (run es s')))
                                (reconnect_timer_fires t (run es s')))
                     ! length (sockets (run es s')))
                 = messageQueue (run es s') @ [Join (Some room) (Some u')])
          \<and> (\<not> storage_raises s \<longrightarrow> storage (run es s') ''exo-user-id'' = Some (id' u))"
    if h: "room \<noteq> []" "\<forall>ev \<in> set es. keeps_identity ev"
       "t \<in> fst ` set (timeouts (run es s'))" "\<not> ctor_raises (run es s')" for es t
  proof -
    have "identity (id' u) room s'" using s' by (simp add: identity_def)
    then have "identity (id' u) room (run es s')" using h(2) by (intro run_identity)
    then show ?thesis
      using rejoin[of "id' u" room "run es s'" t] h run_storage[OF h(2), of s'] b by auto
  qed
  have ids: "(\<forall>a. userId = Some a \<and> a \<noteq> [] \<longrightarrow> id' u = a)
    \<and> (userId = None \<or> userId = Some [] \<longrightarrow>
          (\<forall>b. storage s ''exo-user-id'' = Some b \<and> b \<noteq> [] \<longrightarrow> id' u = b)
          \<and> (storage s ''exo-user-id'' = None \<or> storage s ''exo-user-id'' = Some [] \<longrightarrow>
                (\<forall>v. randomUUID e = Some v \<longrightarrow> id' u = v)
                \<and> (randomUUID e = None \<longrightarrow>
                      id' u = ''u_'' @ random36 e @ ''_'' @ string_of_nat (id_now e))))"
    by (intro conjI allI impI; (elim conjE)?) (simp_all add: arg kept uuid fallback)
  have looks: "(\<forall>b. storage s ''exo-user-name'' = Some b \<and> b \<noteq> [] \<longrightarrow> name u = b)
    \<and> (storage s ''exo-user-name'' = None \<or> storage s ''exo-user-name'' = Some [] \<longrightarrow>
          name u = generateDisplayName e)
    \<and> (\<forall>b. storage s ''exo-user-color'' = Some b \<and> b \<noteq> [] \<longrightarrow> color u = b)
    \<and> (storage s ''exo-user-color'' = None \<or> storage s ''exo-user-color'' = Some [] \<longrightarrow>
          color u = generateColor e)"
    by (intro conjI allI impI; (elim conjE)?) (simp_all add: nm nm' cl cl')
  have rest: "(\<not> storage_raises s \<longrightarrow>
          storage s' ''exo-user-id'' = Some (id' u) \<and> storage s' ''exo-user-name'' = Some (name u)
          \<and> storage s' ''exo-user-color'' = Some (color u))
    \<and> (\<not> ctor_raises s \<longrightarrow>
          p = Pending \<and> ws s' = Some (length (sockets s))
          \<and> readyState (sockets s' ! length (sockets s)) = CONNECTING
          \<and> sent (sockets (socket_opens (length (sockets s)) s') ! length (sockets s))
              = messageQueue s @ [Join (Some room) (Some u)])
    \<and> (\<forall>es t. room \<noteq> [] \<and> (\<forall>ev \<in> set es. keeps_identity ev)
               \<and> t \<in> fst ` set (timeouts (run es s')) \<and> \<not> ctor_raises (run es s') \<longrightarrow>
          (\<exists>u'. id' u' = id' u
             \<and> sent (sockets (socket_opens (length (sockets (run es s')))
                                (reconnect_timer_fires t (run es s')))
                     ! length (sockets (run es s')))
                 = messageQueue (run es s') @ [Join (Some room) (Some u')])
          \<and> (\<not> storage_raises s \<longrightarrow> storage (run es s') ''exo-user-id'' = Some (id' u)))"
    by (intro conjI allI impI; (elim conjE)?) (simp_all add: b d f)
  show ?thesis
proof (rule exI[of _ u], intro conjI)
    show "user s' = Some u" by (rule s'(1))
  qed (insert ids looks rest, (elim conjE, assumption)+)
qed

lemma dropped_client_run:
  "run [Socket_opens 0, Socket_closes 0] (snd (connect ''R1'' None demo_env three_subscribers))
     = dropped_client"
  by (simp add: dropped_client_def live_client_def)

theorem connect_identity_witness:
  "\<not> getItem_raises three_subscribers \<and> \<not> getItem_raises returning_client
   \<and> id' (the (user (snd (connect ''R1'' (Some ''u7'') demo_env three_subscribers)))) = ''u7''
   \<and> storage returning_client ''exo-user-id'' = Some ''kept''
   \<and> user (snd (connect ''R1'' (Some []) demo_env returning_client))
       = Some (demo_user\<lparr>id' := ''kept'', name := ''Nova 500'', color := ''hsl(20 80% 60%)''\<rparr>)
   \<and> randomUUID (demo_env\<lparr>randomUUID := None\<rparr>) = None
   \<and> id' (the (user (snd (connect ''R1'' None (demo_env\<lparr>randomUUID := None\<rparr>)
                            three_subscribers)))) = ''u_xyz_4''
   \<and> storage three_subscribers ''exo-user-id'' = None \<and> randomUUID demo_env = Some ''abc''
   \<and> connect ''R1'' None demo_env three_subscribers
       = (Pending, snd (connect ''R1'' None demo_env three_subscribers))
   \<and> user (snd (connect ''R1'' None demo_env three_subscribers)) = Some demo_user
   \<and> \<not> storage_raises three_subscribers
   \<and> storage (snd (connect ''R1'' None demo_env three_subscribers)) ''exo-user-id'' = Some ''abc''
   \<and> storage (snd (connect ''R1'' None demo_env three_subscribers)) ''exo-user-name''
       = Some ''Vega 123''
   \<and> storage (snd (connect ''R1'' None demo_env three_subscribers)) ''exo-user-color''
       = Some ''hsl(160 80% 60%)''
   \<and> \<not> ctor_raises three_subscribers
   \<and> ws (snd (connect ''R1'' None demo_env three_subscribers)) = Some 0
   \<and> readyState (sockets (snd (connect ''R1'' None demo_env three_subscribers)) ! 0) = CONNECTING
   \<and> sent (sockets live_client ! 0) = [Join (Some ''R1'') (Some demo_user)]
   \<and> ''R1'' \<noteq> [] \<and> keeps_identity (Socket_opens 0) \<and> keeps_identity (Socket_closes 0)
   \<and> 2 \<in> fst ` set (timeouts dropped_client) \<and> \<not> ctor_raises dropped_client
   \<and> (\<exists>u'. id' u' = ''abc''
         \<and> sent (sockets (socket_opens 1 (reconnect_timer_fires 2 dropped_client)) ! 1)
             = [Join (Some ''R1'') (Some u')])
   \<and> storage dropped_client ''exo-user-id'' = Some ''abc''"
proof -
  let ?c = "connect ''R1'' None demo_env three_subscribers"
  let ?k = "connect ''R1'' (Some []) demo_env returning_client"
  have g: "\<not> getItem_raises three_subscribers" "\<not> getItem_raises returning_client"
    by (simp_all add: returning_client_def base)
  have given: "id' (the (user (snd (connect ''R1'' (Some ''u7'') demo_env three_subscribers))))
                 = ''u7''"
    using connect_identity_and_rejoin
           [where room = "''R1''" and userId = "Some ''u7''" and e = demo_env
              and s = three_subscribers, OF prod.collapse[symmetric] g(1)]
    by (elim exE conjE) simp
  have st: "storage returning_client ''exo-user-id'' = Some ''kept''"
    "storage returning_client ''exo-user-name'' = Some ''Nova 500''"
    "storage returning_client ''exo-user-color'' = Some ''hsl(20 80% 60%)''"
    by (simp_all add: returning_client_def)
  have times: "joinedAt (the (user (snd ?k))) = 5" "lastSeen (the (user (snd ?k))) = 5"
    "selectedPlanetId (the (user (snd ?k))) = None" "isViewingPlanet (the (user (snd ?k))) = None"
    using connect_user_times[OF g(2), of "''R1''" "Some []" demo_env]
    by (auto simp: demo_env_def)
  have kept: "id' (the (user (snd ?k))) = ''kept'' \<and> name (the (user (snd ?k))) = ''Nova 500''
        \<and> color (the (user (snd ?k))) = ''hsl(20 80% 60%)'' \<and> user (snd ?k) \<noteq> None"
    using connect_identity_and_rejoin
           [where room = "''R1''" and userId = "Some []" and e = demo_env
              and s = returning_client, OF prod.collapse[symmetric] g(2)]
    by (elim exE conjE) (simp add: st)
  have again_k: "user (snd ?k)
       = Some (demo_user\<lparr>id' := ''kept'', name := ''Nova 500'', color := ''hsl(20 80% 60%)''\<rparr>)"
    using kept times by (cases "user (snd ?k)") (simp_all add: demo_user_def)
  have nouuid: "randomUUID (demo_env\<lparr>randomUUID := None\<rparr>) = None"
    by simp
  have made: "id' (the (user (snd (connect ''R1'' None (demo_env\<lparr>randomUUID := None\<rparr>)
                            three_subscribers)))) = ''u_xyz_4''"
    using connect_identity_and_rejoin
           [where room = "''R1''" and userId = None and e = "demo_env\<lparr>randomUUID := None\<rparr>"
              and s = three_subscribers, OF prod.collapse[symmetric] g(1)]
    by (elim exE conjE) (simp add: base demo_env_def string_of_nat.simps digit_def)
  have c: "?c = (Pending, snd ?c)"
    by (simp add: connect_result[OF g(1)] openSocket_def Let_def setItem_def base)
  have times': "joinedAt (the (user (snd ?c))) = 5" "lastSeen (the (user (snd ?c))) = 5"
    "selectedPlanetId (the (user (snd ?c))) = None" "isViewingPlanet (the (user (snd ?c))) = None"
    using connect_user_times[OF g(1), of "''R1''" None demo_env]
    by (auto simp: demo_env_def)
  have env: "randomUUID demo_env = Some ''abc''" "generateDisplayName demo_env = ''Vega 123''"
    "generateColor demo_env = ''hsl(160 80% 60%)''"
    by (simp_all add: demo_env_def evals)
  have fields: "id' demo_user = ''abc''" "name demo_user = ''Vega 123''"
    "color demo_user = ''hsl(160 80% 60%)''"
    by (simp_all add: demo_user_def)
  have es: "\<forall>ev \<in> set [Socket_opens 0, Socket_closes 0]. keeps_identity ev"
    by simp
  have d: "2 \<in> fst ` set (timeouts dropped_client)" "\<not> ctor_raises dropped_client"
    "length (sockets dropped_client) = 1" "messageQueue dropped_client = []"
    by (simp_all add: dropped_client_eq base)
  have r: "''R1'' \<noteq> []"
    by simp
  have b: "\<not> storage_raises three_subscribers" "\<not> ctor_raises three_subscribers"
    "length (sockets three_subscribers) = 0" "messageQueue three_subscribers = []"
    "storage three_subscribers ''exo-user-id'' = None"
    "storage three_subscribers ''exo-user-name'' = None"
    "storage three_subscribers ''exo-user-color'' = None"
    by (simp_all add: base)
  have all: "user (snd ?c) = Some demo_user
     \<and> storage (snd ?c) ''exo-user-id'' = Some ''abc''
     \<and> storage (snd ?c) ''exo-user-name'' = Some ''Vega 123''
     \<and> storage (snd ?c) ''exo-user-color'' = Some ''hsl(160 80% 60%)''
     \<and> ws (snd ?c) = Some 0 \<and> readyState (sockets (snd ?c) ! 0) = CONNECTING
     \<and> sent (sockets (socket_opens 0 (snd ?c)) ! 0) = [Join (Some ''R1'') (Some demo_user)]
     \<and> (\<exists>u'. id' u' = ''abc''
         \<and> sent (sockets (socket_opens 1 (reconnect_timer_fires 2 dropped_client)) ! 1)
             = [Join (Some ''R1'') (Some u')])
     \<and> storage dropped_client ''exo-user-id'' = Some ''abc''"
  proof -
    from connect_identity_and_rejoin [OF c g(1)]
    obtain u0 where u0: "user (snd ?c) = Some u0"
      and ident: "(None :: string option) = None \<or> (None :: string option) = Some [] \<longrightarrow>
          (\<forall>b. storage three_subscribers ''exo-user-id'' = Some b \<and> b \<noteq> [] \<longrightarrow> id' u0 = b)
          \<and> (storage three_subscribers ''exo-user-id'' = None
               \<or> storage three_subscribers ''exo-user-id'' = Some [] \<longrightarrow>
                (\<forall>v. randomUUID demo_env = Some v \<longrightarrow> id' u0 = v)
                \<and> (randomUUID demo_env = None \<longrightarrow>
                      id' u0 = ''u_'' @ random36 demo_env @ ''_'' @ string_of_nat (id_now demo_env)))"
      and nm: "storage three_subscribers ''exo-user-name'' = None
               \<or> storage three_subscribers ''exo-user-name'' = Some [] \<longrightarrow>
               name u0 = generateDisplayName demo_env"
      and cl: "storage three_subscribers ''exo-user-color'' = None
               \<or> storage three_subscribers ''exo-user-color'' = Some [] \<longrightarrow>
               color u0 = generateColor demo_env"
      and stored: "\<not> storage_raises three_subscribers \<longrightarrow>
         storage (snd ?c) ''exo-user-id'' = Some (id' u0)
         \<and> storage (snd ?c) ''exo-user-name'' = Some (name u0)
         \<and> storage (snd ?c) ''exo-user-color'' = Some (color u0)"
      and opened: "\<not> ctor_raises three_subscribers \<longrightarrow>
         Pending = Pending \<and> ws (snd ?c) = Some (length (sockets three_subscribers))
         \<and> readyState (sockets (snd ?c) ! length (sockets three_subscribers)) = CONNECTING
         \<and> sent (sockets (socket_opens (length (sockets three_subscribers)) (snd ?c))
                 ! length (sockets three_subscribers))
           = messageQueue three_subscribers @ [Join (Some ''R1'') (Some u0)]"
      and later: "\<forall>es t. ''R1'' \<noteq> [] \<and> (\<forall>ev \<in> set es. keeps_identity ev)
                 \<and> t \<in> fst ` set (timeouts (run es (snd ?c))) \<and> \<not> ctor_raises (run es (snd ?c)) \<longrightarrow>
            (\<exists>u'. id' u' = id' u0
               \<and> sent (sockets (socket_opens (length (sockets (run es (snd ?c))))
                                  (reconnect_timer_fires t (run es (snd ?c))))
                       ! length (sockets (run es (snd ?c))))
                   = messageQueue (run es (snd ?c)) @ [Join (Some ''R1'') (Some u')])
            \<and> (\<not> storage_raises three_subscribers \<longrightarrow>
                  storage (run es (snd ?c)) ''exo-user-id'' = Some (id' u0))"
      by (elim exE conjE) (rule that)
    have "id' u0 = ''abc''" "name u0 = ''Vega 123''" "color u0 = ''hsl(160 80% 60%)''"
      using ident nm cl by (simp_all add: b env)
    then have same: "u0 = demo_user"
      using times' u0 by (simp add: demo_user_def)
    have again: "(\<exists>u'. id' u' = ''abc''
           \<and> sent (sockets (socket_opens 1 (reconnect_timer_fires 2 dropped_client)) ! 1)
               = [Join (Some ''R1'') (Some u')])
           \<and> storage dropped_client ''exo-user-id'' = Some ''abc''"
      using later[rule_format, of "[Socket_opens 0, Socket_closes 0]" 2] r es d b(1)
      unfolding dropped_client_run same by (simp add: fields)
    show ?thesis
      using u0 stored opened again b(1-4) unfolding same by (simp add: fields)
  qed
  have live: "socket_opens 0 (snd ?c) = live_client"
    by (simp add: live_client_def)
  show ?thesis
    using g given st(1) again_k nouuid made b(1,2,5) env(1) c all d(1,2) unfolding live by simp
qed

text \<open>
  C9 as stated fails in four ways. An \<open>updatePresence\<close> that carries an id replaces the
  id of the user: the join of the next automatic reconnect carries the new id while the
  storage still holds the old one. Where \<open>setItem\<close> raises, \<open>connect\<close> goes on with nothing
  stored. Where \<open>getItem\<close> raises, as on the storage object with neither method,
  \<open>connect\<close> is rejected with no user and no socket. Where the constructor raises,
  \<open>connect\<close> is rejected with no socket.
\<close>

theorem connect_identity_counterexample:
  "storage renamed_client ''exo-user-id'' = Some ''abc''
   \<and> sent (sockets renamed_client ! 1)
       = [Join (Some ''R1'') (Some (demo_user\<lparr>id' := ''other'', lastSeen := 9\<rparr>))]
   \<and> user (snd connect_readonly) = Some demo_user
   \<and> storage (snd connect_readonly) ''exo-user-id'' = None
   \<and> fst connect_unreadable = Rejected \<and> user (snd connect_unreadable) = None
   \<and> sockets (snd connect_unreadable) = []
   \<and> fst connect_refused = Rejected \<and> sockets (snd connect_refused) = []"
proof -
  have a: "storage renamed_client ''exo-user-id'' = Some ''abc''"
    "sent (sockets renamed_client ! 1)
       = [Join (Some ''R1'') (Some (demo_user\<lparr>id' := ''other'', lastSeen := 9\<rparr>))]"
    by (simp_all add: renamed_client_def live_client_eq no_keys_def spread_def demo_user_def
                      evals base)
  have b: "user (snd connect_readonly) = Some demo_user"
    "storage (snd connect_readonly) ''exo-user-id'' = None"
    by (simp_all add: connect_readonly_def connect_result demo_env_def demo_user_def evals base)
  have c: "fst connect_unreadable = Rejected" "user (snd connect_unreadable) = None"
    "sockets (snd connect_unreadable) = []"
    by (simp_all add: connect_unreadable_def connect_rejected base)
  have d: "fst connect_refused = Rejected" "sockets (snd connect_refused) = []"
    by (simp_all add: connect_refused_def connect_result demo_env_def evals base)
  show ?thesis
    using a b c d by simp
qed

section \<open>Disconnecting, and reconnecting by hand\<close>

lemma disconnect_fields:
  "\<not> truthy_handle (heartbeatTimer (disconnect s))"
  "ws (disconnect s) = None"
  "\<not> truthy_handle (reconnectTimer (disconnect s))"
  "reconnectAttempts (disconnect s) = 0"
proof -
  have a: "\<not> truthy_handle (heartbeatTimer (stopHeartbeat s))"
    by (simp add: stopHeartbeat_def truthy_handle_def)
  have b: "heartbeatTimer (ws_close i s') = heartbeatTimer s'" for i s'
    by (simp add: ws_close_def set_readyState_def)
  have c: "heartbeatTimer (clearReconnect s') = heartbeatTimer s'"
    "ws (clearReconnect s') = ws s'"
    "\<not> truthy_handle (reconnectTimer (clearReconnect s'))"
    "reconnectAttempts (clearReconnect s') = 0" for s'
    by (simp_all add: clearReconnect_def Let_def clearTimeout_def truthy_handle_def)
  show "\<not> truthy_handle (heartbeatTimer (disconnect s))"
    using a by (simp add: disconnect_def Let_def b c split: option.splits)
  show "ws (disconnect s) = None"
    by (simp add: disconnect_def Let_def c)
  show "\<not> truthy_handle (reconnectTimer (disconnect s))"
    by (simp add: disconnect_def Let_def c)
  show "reconnectAttempts (disconnect s) = 0"
    by (simp add: disconnect_def Let_def c)
qed

lemma disconnect_settled:
  assumes "\<not> truthy_handle (heartbeatTimer d)" "ws d = None"
    "\<not> truthy_handle (reconnectTimer d)" "reconnectAttempts d = 0"
  shows "disconnect d = d"
  using assms by (simp add: disconnect_def Let_def stopHeartbeat_def clearReconnect_def)

lemma disconnect_twice: "disconnect (disconnect s) = disconnect s"
  by (intro disconnect_settled disconnect_fields)

text \<open>
  C3 at its failing input. \<open>disconnect\<close> itself clears the heartbeat, the timer and the
  counter and starts closing the socket; but the close event of that socket runs
  \<open>onclose\<close>, which schedules a reconnect, and once that timer has expired and the new
  socket has opened, a join has been sent on it and the heartbeat runs again. The same
  happens when the socket being closed belongs to a reconnect attempt in flight.
\<close>

theorem rejoin_after_disconnect:
  "heartbeatTimer (disconnect live_client) = None \<and> intervals (disconnect live_client) = []
   \<and> reconnectTimer (disconnect live_client) = None \<and> timeouts (disconnect live_client) = []
   \<and> reconnectAttempts (disconnect live_client) = 0 \<and> ws (disconnect live_client) = None
   \<and> map readyState (sockets (disconnect live_client)) = [CLOSING]
   \<and> map readyState (sockets after_disconnect) = [CLOSED, OPEN]
   \<and> sent (sockets after_disconnect ! 1) = [Join (Some ''R1'') (Some demo_user)]
   \<and> ws after_disconnect = Some 1
   \<and> intervals after_disconnect = [(3, 30000)]
   \<and> map readyState (sockets after_disconnect_in_flight) = [CLOSED, CLOSED, OPEN]
   \<and> sent (sockets after_disconnect_in_flight ! 2) = [Join (Some ''R1'') (Some demo_user)]
   \<and> ws after_disconnect_in_flight = Some 2
   \<and> intervals after_disconnect_in_flight = [(4, 30000)]"
  by (simp add: disconnected_eq after_disconnect_eq after_disconnect_in_flight_eq base)

lemma onopen_effects:
  "reconnectAttempts (onopen s) = 0"
  "notified (onopen s) = notified s @ map (\<lambda>h. (h, Connected)) (on_connected s)"
  by (simp_all add: onopen_def Let_def notify_trace)

lemma onopen_flushes:
  assumes "ws s = Some k" "k < length (sockets s)" "readyState (sockets s ! k) = OPEN"
    "\<not> send_raises (sockets s ! k)"
  shows "sent (sockets (onopen s) ! k) = sent (sockets s ! k) @ messageQueue s"
    and "messageQueue (onopen s) = []"
proof -
  let ?s1 = "s\<lparr>reconnectAttempts := 0, messageQueue := []\<rparr>"
  have c: "ws ?s1 = Some k" "k < length (sockets ?s1)" "readyState (sockets ?s1 ! k) = OPEN"
    "\<not> send_raises (sockets ?s1 ! k)"
    using assms by simp_all
  have o: "onopen s = notify Connected (send_each (messageQueue s) ?s1)"
    by (simp add: onopen_def Let_def)
  show "sent (sockets (onopen s) ! k) = sent (sockets s ! k) @ messageQueue s"
    unfolding o flush_open[OF c] using assms(2) by (simp add: notify_trace)
  show "messageQueue (onopen s) = []"
    unfolding o flush_open[OF c] by (simp add: notify_trace)
qed

text \<open>
  C5 at its failing input. After \<open>connect\<close> and after the reconnect timer, the opening of
  the socket leaves a 30-second heartbeat interval running; after the public
  \<open>reconnect\<close> the socket is open, the counter is 0 and the join has been sent, but no
  heartbeat interval exists.
\<close>

theorem no_heartbeat_after_manual_reconnect:
  "intervals live_client = [(1, 30000)] \<and> heartbeatTimer live_client = Some 1
   \<and> intervals after_timed_reconnect = [(3, 30000)]
   \<and> heartbeatTimer after_timed_reconnect = Some 3
   \<and> map readyState (sockets after_manual_reconnect) = [CLOSED, OPEN]
   \<and> ws after_manual_reconnect = Some 1
   \<and> sent (sockets after_manual_reconnect ! 1) = [Join (Some ''R1'') (Some demo_user)]
   \<and> reconnectAttempts after_manual_reconnect = 0
   \<and> intervals after_manual_reconnect = []
   \<and> heartbeatTimer after_manual_reconnect = None"
  by (simp add: live_client_eq after_timed_reconnect_eq after_manual_reconnect_eq base)

end
